theory Spec2Isabelle
  imports Complex_Main
begin

section \<open>Strings, values and the character database\<close>

text \<open>
  A Python \<open>str\<close> is a sequence of Unicode code points, so a string is a list of
  code points (natural numbers) and \<open>length\<close> counts what Python's \<open>len\<close> counts.
  \<open>ustr\<close> writes an ASCII literal as such a list.
\<close>

type_synonym cp = nat
type_synonym pystr = "cp list"

definition ustr :: "string \<Rightarrow> pystr" where
  "ustr s = map of_char s"

text \<open>
  The classification of characters is done by the Python runtime (\<open>str.strip\<close>,
  \<open>str.lower\<close>, the classes \<^verbatim>\<open>\D\<close>, \<^verbatim>\<open>\s\<close>, \<^verbatim>\<open>\b\<close> of \<open>re\<close>, \<open>int\<close>,
  \<open>unicodedata.normalize\<close> and \<open>unicodedata.combining\<close>), from tables that are not
  part of the program. They are a parameter of every function that uses them, with
  the interpreter's limit on the length of a decimal string that \<open>int\<close> reads:
  \<^item> \<open>isspace c\<close>: \<open>c\<close> is whitespace (what \<open>strip\<close> removes and \<^verbatim>\<open>\s\<close> matches);
  \<^item> \<open>decimal c\<close>: the value of \<open>c\<close> when it is a decimal digit (what \<^verbatim>\<open>\d\<close> matches
    and \<open>int\<close> reads), \<open>None\<close> otherwise;
  \<^item> \<open>isword c\<close>: \<open>c\<close> is a word character (\<^verbatim>\<open>\w\<close>, which decides \<^verbatim>\<open>\b\<close>);
  \<^item> \<open>lower\<close>, \<open>nfkd\<close>: \<open>str.lower\<close> and NFKD normalisation, on whole strings;
  \<^item> \<open>combining c\<close>: the canonical combining class of \<open>c\<close> is not zero;
  \<^item> \<open>max_str_digits\<close>: \<open>sys.get_int_max_str_digits()\<close>, which is 4300 by default in
    CPython 3.11 and later; 0 stands for no limit, as in an interpreter without one.
\<close>

record ucd =
  isspace :: "cp \<Rightarrow> bool"
  decimal :: "cp \<Rightarrow> nat option"
  isword :: "cp \<Rightarrow> bool"
  lower :: "pystr \<Rightarrow> pystr"
  nfkd :: "pystr \<Rightarrow> pystr"
  combining :: "cp \<Rightarrow> bool"
  max_str_digits :: int

text \<open>
  The fragment of these tables on the characters the examples below use: the ASCII
  range, and the letter u with diaeresis (252, capital 220), which NFKD decomposes into
  \<open>u\<close> followed by the combining diaeresis 776.
\<close>

definition latin_isspace :: "cp \<Rightarrow> bool" where
  "latin_isspace c = (c \<in> {9, 10, 11, 12, 13, 28, 29, 30, 31, 32})"

definition latin_decimal :: "cp \<Rightarrow> nat option" where
  "latin_decimal c = (if 48 \<le> c \<and> c \<le> 57 then Some (c - 48) else None)"

definition latin_isword :: "cp \<Rightarrow> bool" where
  "latin_isword c =
     ((48 \<le> c \<and> c \<le> 57) \<or> (65 \<le> c \<and> c \<le> 90) \<or> c = 95 \<or> (97 \<le> c \<and> c \<le> 122)
      \<or> c = 220 \<or> c = 252)"

definition latin_lower_cp :: "cp \<Rightarrow> cp" where
  "latin_lower_cp c = (if (65 \<le> c \<and> c \<le> 90) \<or> c = 220 then c + 32 else c)"

definition latin_nfkd_cp :: "cp \<Rightarrow> pystr" where
  "latin_nfkd_cp c = (if c = 252 then [117, 776] else if c = 220 then [85, 776] else [c])"

definition latin_ucd :: ucd where
  "latin_ucd =
     \<lparr> isspace = latin_isspace,
       decimal = latin_decimal,
       isword = latin_isword,
       lower = map latin_lower_cp,
       nfkd = (\<lambda>s. concat (map latin_nfkd_cp s)),
       combining = (\<lambda>c. c = 776),
       max_str_digits = 4300 \<rparr>"

text \<open>
  The same tables with the Arabic-Indic digits 1632 to 1641 (U+0660 to U+0669), which
  are decimal digits of the values 0 to 9, and word characters.
\<close>

definition arabic_decimal :: "cp \<Rightarrow> nat option" where
  "arabic_decimal c = (if 1632 \<le> c \<and> c \<le> 1641 then Some (c - 1632) else latin_decimal c)"

definition arabic_ucd :: ucd where
  "arabic_ucd =
     \<lparr> isspace = latin_isspace,
       decimal = arabic_decimal,
       isword = (\<lambda>c. (1632 \<le> c \<and> c \<le> 1641) \<or> latin_isword c),
       lower = map latin_lower_cp,
       nfkd = (\<lambda>s. concat (map latin_nfkd_cp s)),
       combining = (\<lambda>c. c = 776),
       max_str_digits = 4300 \<rparr>"

text \<open>
  Errors are values. The exceptions the modelled code can raise:
\<close>

datatype error = TypeError | AttributeError | ValueError | ZeroDivisionError

subsection \<open>Library operations on strings\<close>

text \<open>\<open>s.strip()\<close>, \<open>s.lstrip("0")\<close>, \<^verbatim>\<open>re.sub(r"\D", "", s)\<close>.\<close>

definition lstrip_ws :: "ucd \<Rightarrow> pystr \<Rightarrow> pystr" where
  "lstrip_ws U s = dropWhile (isspace U) s"

definition strip :: "ucd \<Rightarrow> pystr \<Rightarrow> pystr" where
  "strip U s = rev (dropWhile (isspace U) (rev (lstrip_ws U s)))"

definition lstrip_zero :: "pystr \<Rightarrow> pystr" where
  "lstrip_zero s = dropWhile (\<lambda>c. c = 48) s"

definition isdigit :: "ucd \<Rightarrow> cp \<Rightarrow> bool" where
  "isdigit U c = (decimal U c \<noteq> None)"

definition sub_nondigits :: "ucd \<Rightarrow> pystr \<Rightarrow> pystr" where
  "sub_nondigits U s = filter (isdigit U) s"

text \<open>
  \<open>re.sub(r'[\/*?:"<>|]', "_", s)\<close>: inside the class, the backslash escapes the slash, so
  the class is the eight characters \<open>/ * ? : " < > |\<close>.
\<close>

definition unsafe_chars :: "cp set" where
  "unsafe_chars = {47, 42, 63, 58, 34, 60, 62, 124}"

definition sub_unsafe :: "pystr \<Rightarrow> pystr" where
  "sub_unsafe s = map (\<lambda>c. if c \<in> unsafe_chars then 95 else c) s"

text \<open>\<^verbatim>\<open>re.sub(r"\s+", " ", s)\<close>: every maximal run of whitespace becomes one space.\<close>

function sub_spaces :: "ucd \<Rightarrow> pystr \<Rightarrow> pystr" where
  "sub_spaces U [] = []"
| "sub_spaces U (c # s) =
     (if isspace U c then 32 # sub_spaces U (dropWhile (isspace U) s)
      else c # sub_spaces U s)"
  by pat_completeness auto
termination
  by (relation "measure (\<lambda>(U, s). length s)")
     (auto simp: less_Suc_eq_le length_dropWhile_le)

text \<open>
  \<open>s[:n]\<close> for an integer \<open>n\<close>: a negative \<open>n\<close> counts from the end.
\<close>

definition slice_to :: "pystr \<Rightarrow> int \<Rightarrow> pystr" where
  "slice_to s n =
     (if n < 0 then take (nat (int (length s) + n)) s else take (nat n) s)"

text \<open>
  \<open>str(k)\<close> of an integer, and \<open>int(s)\<close>. \<open>int\<close> is modelled on the strings that reach
  it here, which consist of decimal digits only (every other character was removed
  by \<^verbatim>\<open>\D\<close>): a non-empty string of decimal digits is read in base ten; the empty string
  and a string with another character give \<open>ValueError\<close>. So does a string of more
  digits than the interpreter's limit \<open>max_str_digits\<close> (leading zeros count): CPython
  applies the limit, when it is not 0, to a string of more than 640 digits.
\<close>

function digits_of :: "nat \<Rightarrow> pystr" where
  "digits_of n = (if n < 10 then [48 + n] else digits_of (n div 10) @ [48 + n mod 10])"
  by pat_completeness auto
termination
  by (relation "measure id") auto

definition py_str :: "int \<Rightarrow> pystr" where
  "py_str k = (if k < 0 then 45 # digits_of (nat (- k)) else digits_of (nat k))"

fun digits_value :: "ucd \<Rightarrow> nat \<Rightarrow> pystr \<Rightarrow> nat option" where
  "digits_value U acc [] = Some acc"
| "digits_value U acc (c # s) =
     (case decimal U c of
        None \<Rightarrow> None
      | Some d \<Rightarrow> digits_value U (10 * acc + d) s)"

definition over_limit :: "ucd \<Rightarrow> pystr \<Rightarrow> bool" where
  "over_limit U s =
     (let digits = int (length s)
      in digits > 640 \<and> max_str_digits U > 0 \<and> digits > max_str_digits U)"

definition py_int :: "ucd \<Rightarrow> pystr \<Rightarrow> error + int" where
  "py_int U s =
     (if s = [] then Inl ValueError
      else case digits_value U 0 s of
             None \<Rightarrow> Inl ValueError
           | Some n \<Rightarrow> if over_limit U s then Inl ValueError else Inr (int n))"

text \<open>An f-string field \<open>{x}\<close>: \<open>None\<close> is printed as the word \<open>None\<close>.\<close>

definition fmt :: "pystr option \<Rightarrow> pystr" where
  "fmt x = (case x of None \<Rightarrow> ustr ''None'' | Some s \<Rightarrow> s)"

section \<open>Sanitizers\<close>

text \<open>
  The \<open>value\<close> of a sanitizer is \<open>None\<close> or a string; so is \<open>default\<close>, which the source
  declares as \<open>default=None\<close> (written \<open>dflt\<close> here: \<open>default\<close> is a constant of HOL).
\<close>

definition sanitize_numeric_keep_zeros :: "ucd \<Rightarrow> pystr option \<Rightarrow> pystr option \<Rightarrow> pystr option" where
  "sanitize_numeric_keep_zeros U v dflt =
     (case v of
        None \<Rightarrow> dflt
      | Some x \<Rightarrow>
          (let s = sub_nondigits U (strip U x)
           in if s \<noteq> [] then Some s else dflt))"

definition sanitize_any :: "ucd \<Rightarrow> pystr option \<Rightarrow> pystr option \<Rightarrow> pystr option" where
  "sanitize_any U v dflt =
     (case v of
        None \<Rightarrow> dflt
      | Some x \<Rightarrow>
          (let s = strip U x
           in if s \<noteq> [] then Some s else dflt))"

text \<open>
  \<open>s.lstrip("0")\<close> on \<open>None\<close> would raise \<open>AttributeError\<close>; the default \<open>"0"\<close> given to
  the sanitizer is what excludes it.
\<close>

definition strip_leading_zeros_keep_zero :: "ucd \<Rightarrow> pystr option \<Rightarrow> error + pystr" where
  "strip_leading_zeros_keep_zero U v =
     (case sanitize_numeric_keep_zeros U v (Some (ustr ''0'')) of
        None \<Rightarrow> Inl AttributeError
      | Some s \<Rightarrow>
          (let s2 = lstrip_zero s
           in Inr (if s2 \<noteq> [] then s2 else ustr ''0'')))"

text \<open>
  \<open>x or default\<close> takes \<open>default\<close> when \<open>x\<close> is \<open>None\<close> or the empty string;
  \<open>re.sub\<close> on \<open>None\<close> raises \<open>TypeError\<close>.
\<close>

definition or_default :: "pystr option \<Rightarrow> pystr option \<Rightarrow> pystr option" where
  "or_default x dflt =
     (case x of None \<Rightarrow> dflt | Some s \<Rightarrow> if s = [] then dflt else Some s)"

definition safe_filename_component :: "ucd \<Rightarrow> pystr option \<Rightarrow> pystr option \<Rightarrow> error + pystr" where
  "safe_filename_component U v dflt =
     (case or_default (sanitize_any U v dflt) dflt of
        None \<Rightarrow> Inl TypeError
      | Some s \<Rightarrow> Inr (strip U (sub_spaces U (sub_unsafe s))))"

definition truncate_component :: "pystr option \<Rightarrow> int \<Rightarrow> pystr" where
  "truncate_component v max_len =
     (case v of
        None \<Rightarrow> []
      | Some s \<Rightarrow> if int (length s) \<le> max_len then s else slice_to s max_len)"

section \<open>Column resolver\<close>

text \<open>
  The header patterns use three constructs of \<open>re\<close>: a literal character, the word
  boundary \<^verbatim>\<open>\b\<close> and \<^verbatim>\<open>\s*\<close>. A pattern is a list of them; \<open>match_here\<close> matches
  it at one position (\<open>prev\<close> is the character before the position, if any), with the
  backtracking of \<^verbatim>\<open>\s*\<close>; \<open>re_search\<close> tries every position from the left, as
  \<open>re.search\<close> does.
\<close>

datatype atom = Lit cp | WordB | SpaceStar

type_synonym regex = "atom list"

definition lits :: "string \<Rightarrow> regex" where
  "lits s = map (\<lambda>c. Lit (of_char c)) s"

definition word_boundary :: "ucd \<Rightarrow> cp option \<Rightarrow> pystr \<Rightarrow> bool" where
  "word_boundary U prev s =
     ((case prev of None \<Rightarrow> False | Some c \<Rightarrow> isword U c)
      \<noteq> (case s of [] \<Rightarrow> False | c # _ \<Rightarrow> isword U c))"

fun match_here :: "ucd \<Rightarrow> regex \<Rightarrow> cp option \<Rightarrow> pystr \<Rightarrow> bool" where
  "match_here U [] prev s = True"
| "match_here U (Lit c # r) prev [] = False"
| "match_here U (Lit c # r) prev (x # xs) = (x = c \<and> match_here U r (Some x) xs)"
| "match_here U (WordB # r) prev s = (word_boundary U prev s \<and> match_here U r prev s)"
| "match_here U (SpaceStar # r) prev [] = match_here U r prev []"
| "match_here U (SpaceStar # r) prev (x # xs) =
     ((isspace U x \<and> match_here U (SpaceStar # r) (Some x) xs)
      \<or> match_here U r prev (x # xs))"

fun search_from :: "ucd \<Rightarrow> regex \<Rightarrow> cp option \<Rightarrow> pystr \<Rightarrow> bool" where
  "search_from U r prev [] = match_here U r prev []"
| "search_from U r prev (x # xs) =
     (match_here U r prev (x # xs) \<or> search_from U r (Some x) xs)"

definition re_search :: "ucd \<Rightarrow> regex \<Rightarrow> pystr \<Rightarrow> bool" where
  "re_search U r s = search_from U r None s"

definition normalize_for_match :: "ucd \<Rightarrow> pystr option \<Rightarrow> pystr" where
  "normalize_for_match U v =
     (case v of
        None \<Rightarrow> []
      | Some x \<Rightarrow>
          (let s = lower U (strip U x);
               s = nfkd U s
           in filter (\<lambda>ch. \<not> combining U ch) s))"

text \<open>
  \<open>find_idx\<close>: the outer loop runs over the normalized header cells with their index,
  the inner loop over the patterns; the first success returns the index.
\<close>

fun any_pattern :: "ucd \<Rightarrow> regex list \<Rightarrow> pystr \<Rightarrow> bool" where
  "any_pattern U [] h = False"
| "any_pattern U (p # ps) h = (if re_search U p h then True else any_pattern U ps h)"

fun find_idx_from :: "ucd \<Rightarrow> regex list \<Rightarrow> int \<Rightarrow> pystr list \<Rightarrow> int option" where
  "find_idx_from U patterns i [] = None"
| "find_idx_from U patterns i (h # hs) =
     (if any_pattern U patterns h then Some i else find_idx_from U patterns (i + 1) hs)"

definition find_idx :: "ucd \<Rightarrow> pystr list \<Rightarrow> regex list \<Rightarrow> int option" where
  "find_idx U normalized patterns = find_idx_from U patterns 0 normalized"

definition company_patterns :: "regex list" where
  "company_patterns =
     [WordB # lits ''company'' @ [WordB],
      WordB # lits ''firma'' @ [WordB],
      WordB # lits ''unternehmen'' @ [WordB]]"

definition article_patterns :: "regex list" where
  "article_patterns =
     [lits ''artikel'',
      lits ''item'' @ [SpaceStar] @ lits ''no'',
      lits ''article'' @ [SpaceStar] @ lits ''no'',
      WordB # lits ''sku'' @ [WordB],
      WordB # lits ''item'' @ [WordB],
      WordB # lits ''article'' @ [WordB]]"

definition quantity_patterns :: "regex list" where
  "quantity_patterns =
     [lits ''stuckzahl'', lits ''stueckzahl'', lits ''quantity'', lits ''qty'', lits ''menge'']"

definition batch_patterns :: "regex list" where
  "batch_patterns = [lits ''chargen'', lits ''batch'']"

definition order_patterns :: "regex list" where
  "order_patterns = [lits ''bestell'', lits ''order'']"

definition carton_patterns :: "regex list" where
  "carton_patterns = [lits ''karton'', lits ''carton'']"

text \<open>
  The dictionary that \<open>build_column_map\<close> returns has six fixed keys: a record. The key
  \<open>"order"\<close> is the field \<open>order_no\<close>.
\<close>

record colmap =
  company :: "int option"
  article :: "int option"
  quantity :: "int option"
  batch :: "int option"
  order_no :: "int option"
  carton :: "int option"

definition build_column_map :: "ucd \<Rightarrow> pystr list \<Rightarrow> colmap" where
  "build_column_map U header_row =
     (let normalized = map (\<lambda>h. normalize_for_match U (Some h)) header_row
      in \<lparr> company = find_idx U normalized company_patterns,
           article = find_idx U normalized article_patterns,
           quantity = find_idx U normalized quantity_patterns,
           batch = find_idx U normalized batch_patterns,
           order_no = find_idx U normalized order_patterns,
           carton = find_idx U normalized carton_patterns \<rparr>)"

definition get_cell :: "pystr list \<Rightarrow> int option \<Rightarrow> pystr \<Rightarrow> pystr" where
  "get_cell row idx dflt =
     (case idx of
        None \<Rightarrow> dflt
      | Some i \<Rightarrow>
          if i < 0 \<or> i \<ge> int (length row) then dflt else row ! nat i)"

section \<open>Label layout\<close>

text \<open>
  The rendering backend (reportlab) is a parameter: \<open>stringWidth text fontName fontSize\<close>
  measures a text, \<open>code128 value barHeight barWidth\<close> gives the width and the height of
  the barcode rendered for \<open>value\<close>, and \<open>FONT_REGULAR\<close>, \<open>FONT_BOLD\<close> are the font names
  chosen when the module is loaded. Python's floats are modelled by the real numbers:
  the results below are those of exact arithmetic.
\<close>

record backend =
  stringWidth :: "pystr \<Rightarrow> pystr \<Rightarrow> int \<Rightarrow> real"
  code128 :: "pystr \<Rightarrow> real \<Rightarrow> real \<Rightarrow> real \<times> real"
  FONT_REGULAR :: pystr
  FONT_BOLD :: pystr

text \<open>The page size \<open>A4\<close> of \<open>reportlab.lib.pagesizes\<close>, in points.\<close>

definition inch :: real where
  "inch = 72"

definition mm :: real where
  "mm = inch / 2.54 * 0.1"

definition A4 :: "real \<times> real" where
  "A4 = (210 * mm, 297 * mm)"

subsection \<open>Shrink-to-fit\<close>

text \<open>
  The header loop:
  \<^verbatim>\<open>while font_size > min_font and stringWidth(company, FONT_BOLD, font_size) > available_w:
      font_size -= 1\<close>
  with \<open>width\<close> the measure of the text at a size. \<open>header_shrink_steps\<close> counts the
  executions of the loop body.
\<close>

function header_shrink :: "(int \<Rightarrow> real) \<Rightarrow> real \<Rightarrow> int \<Rightarrow> int \<Rightarrow> int" where
  "header_shrink width available_w min_font font_size =
     (if font_size > min_font \<and> width font_size > available_w
      then header_shrink width available_w min_font (font_size - 1)
      else font_size)"
  by pat_completeness auto
termination
  by (relation "measure (\<lambda>(width, available_w, min_font, font_size). nat (font_size - min_font))")
     auto

function header_shrink_steps :: "(int \<Rightarrow> real) \<Rightarrow> real \<Rightarrow> int \<Rightarrow> int \<Rightarrow> nat" where
  "header_shrink_steps width available_w min_font font_size =
     (if font_size > min_font \<and> width font_size > available_w
      then Suc (header_shrink_steps width available_w min_font (font_size - 1))
      else 0)"
  by pat_completeness auto
termination
  by (relation "measure (\<lambda>(width, available_w, min_font, font_size). nat (font_size - min_font))")
     auto

text \<open>
  The loop of a value cell, whose state is the size and the width measured at it:
  \<^verbatim>\<open>while text_w > available_w_val and font_size_val > 8:
      font_size_val -= 1
      text_w = stringWidth(value, FONT_BOLD, font_size_val)\<close>
\<close>

function value_shrink :: "(int \<Rightarrow> real) \<Rightarrow> real \<Rightarrow> int \<Rightarrow> real \<Rightarrow> int" where
  "value_shrink width available_w_val font_size_val text_w =
     (if text_w > available_w_val \<and> font_size_val > 8
      then value_shrink width available_w_val (font_size_val - 1) (width (font_size_val - 1))
      else font_size_val)"
  by pat_completeness auto
termination
  by (relation "measure (\<lambda>(width, available_w_val, font_size_val, text_w). nat (font_size_val - 8))")
     auto

function value_shrink_steps :: "(int \<Rightarrow> real) \<Rightarrow> real \<Rightarrow> int \<Rightarrow> real \<Rightarrow> nat" where
  "value_shrink_steps width available_w_val font_size_val text_w =
     (if text_w > available_w_val \<and> font_size_val > 8
      then Suc (value_shrink_steps width available_w_val (font_size_val - 1)
                  (width (font_size_val - 1)))
      else 0)"
  by pat_completeness auto
termination
  by (relation "measure (\<lambda>(width, available_w_val, font_size_val, text_w). nat (font_size_val - 8))")
     auto

declare header_shrink.simps [simp del] header_shrink_steps.simps [simp del]
  value_shrink.simps [simp del] value_shrink_steps.simps [simp del]

text \<open>
  The font size of the header (\<open>max_font = 42\<close>, \<open>min_font = 12\<close>) and of a value cell
  (\<open>main_label_font_size = 36\<close>; a cell that is not shrinkable keeps it).
\<close>

definition header_font_size :: "backend \<Rightarrow> pystr \<Rightarrow> real \<Rightarrow> int" where
  "header_font_size B company_text available_w =
     (let max_font = 42; min_font = 12
      in header_shrink (\<lambda>sz. stringWidth B company_text (FONT_BOLD B) sz)
           available_w min_font max_font)"

definition value_font_size :: "backend \<Rightarrow> pystr \<Rightarrow> bool \<Rightarrow> real \<Rightarrow> int" where
  "value_font_size B val shrinkable col2_w =
     (let main_label_font_size = 36
      in if shrinkable
         then value_shrink (\<lambda>sz. stringWidth B val (FONT_BOLD B) sz) (col2_w - 20)
                main_label_font_size (stringWidth B val (FONT_BOLD B) main_label_font_size)
         else main_label_font_size)"

subsection \<open>Barcode fitter\<close>

text \<open>
  The sizing of the barcode, from the width and height of the baseline render
  (\<open>size_width_init\<close>, \<open>size_height_init\<close>), the target box and the baseline module
  width. A float division by zero raises \<open>ZeroDivisionError\<close>.
\<close>

definition clamp_width :: "real \<Rightarrow> real \<times> real \<Rightarrow> error + real \<times> real" where
  "clamp_width size_width_target wh =
     (case wh of (final_width, final_height) \<Rightarrow>
        if final_width > size_width_target
        then (if final_width = 0 then Inl ZeroDivisionError
              else (let scale_w = size_width_target / final_width
                    in Inr (final_width * scale_w, final_height * scale_w)))
        else Inr (final_width, final_height))"

definition clamp_height :: "real \<Rightarrow> real \<times> real \<Rightarrow> error + real \<times> real" where
  "clamp_height size_height_target wh =
     (case wh of (final_width, final_height) \<Rightarrow>
        if final_height > size_height_target
        then (if final_height = 0 then Inl ZeroDivisionError
              else (let scale_h = size_height_target / final_height
                    in Inr (final_width * scale_h, final_height * scale_h)))
        else Inr (final_width, final_height))"

definition candidate :: "real \<Rightarrow> real \<Rightarrow> real \<Rightarrow> real \<times> real" where
  "candidate size_width_init size_height_init size_width_target =
     (let size_diff_percent = (size_width_init / 100) * size_width_target;
          final_width = size_diff_percent;
          final_height = (size_height_init / 100) * size_diff_percent
      in (final_width, final_height))"

definition module_width :: "real \<Rightarrow> real \<Rightarrow> real \<Rightarrow> error + real" where
  "module_width initial_bar_width final_width size_width_init =
     (if size_width_init = 0 then Inl ZeroDivisionError
      else (let bar_width_final = initial_bar_width * (final_width / size_width_init)
            in Inr (if bar_width_final < 0.2 then 0.2 else bar_width_final)))"

record fit =
  final_width :: real
  final_height :: real
  bar_width_final :: real

definition barcode_fit :: "real \<Rightarrow> real \<Rightarrow> real \<Rightarrow> real \<Rightarrow> real \<Rightarrow> error + fit" where
  "barcode_fit initial_bar_width size_width_init size_height_init
       size_width_target size_height_target =
     (case clamp_width size_width_target
             (candidate size_width_init size_height_init size_width_target) of
        Inl e \<Rightarrow> Inl e
      | Inr wh1 \<Rightarrow>
          (case clamp_height size_height_target wh1 of
             Inl e \<Rightarrow> Inl e
           | Inr (fw, fh) \<Rightarrow>
               (case module_width initial_bar_width fw size_width_init of
                  Inl e \<Rightarrow> Inl e
                | Inr bw \<Rightarrow>
                    Inr \<lparr> final_width = fw, final_height = fh, bar_width_final = bw \<rparr>)))"

subsection \<open>One label\<close>

text \<open>
  \<open>generate_pdf\<close> draws one page. The model keeps what is drawn (the texts with their
  font sizes, the barcode with its parameters, the file name), not the coordinates.
  The geometry that the sizes depend on:
\<close>

definition label_w :: real where
  "label_w = (let page_w = fst A4; margin_x = 36 in page_w - 2 * margin_x)"

definition col2_w :: real where
  "col2_w = (let col1_w = label_w * 0.45 in label_w - col1_w)"

definition size_height_target :: real where
  "size_height_target =
     (let rh = 150;
          text_size = 12;
          text_pad_bottom = 16;
          text_area_h = text_size + 6;
          top_pad = 16;
          bottom_pad = text_area_h + text_pad_bottom;
          t = rh - top_pad - bottom_pad
      in if t < 30 then 30 else t)"

definition size_width_target :: real where
  "size_width_target = label_w - 60"

definition initial_bar_width :: real where
  "initial_bar_width = (let bar_scale = 100 in (1.2 / 100) * bar_scale)"

definition initial_bar_height :: real where
  "initial_bar_height = (let bar_scale = 100 in (40.0 / 100) * bar_scale)"

text \<open>
  A row drawn by \<open>draw_row\<close>: its two labels and, unless \<open>value\<close> is \<open>None\<close>, the value
  with the font size it is drawn at.
\<close>

record row =
  main_label :: pystr
  sub_label :: pystr
  row_value :: "(pystr \<times> int) option"

definition draw_row :: "backend \<Rightarrow> pystr \<Rightarrow> pystr \<Rightarrow> pystr option \<Rightarrow> bool \<Rightarrow> row" where
  "draw_row B main sub val shrinkable =
     \<lparr> main_label = main,
       sub_label = sub,
       row_value =
         (case val of
            None \<Rightarrow> None
          | Some v \<Rightarrow> Some (v, value_font_size B v shrinkable col2_w)) \<rparr>"

record label =
  pdf_file :: pystr
  header_text :: pystr
  header_size :: int
  article_row :: row
  quantity_row :: row
  barcode_value :: pystr
  barcode_bar_height :: real
  barcode_bar_width :: real
  barcode_size :: "real \<times> real"
  caption :: pystr
  batch_row :: row
  order_row :: row
  box_row :: row

definition bind_err :: "error + 'a \<Rightarrow> ('a \<Rightarrow> error + 'b) \<Rightarrow> error + 'b" where
  "bind_err m f = (case m of Inl e \<Rightarrow> Inl e | Inr x \<Rightarrow> f x)"

definition need_str :: "pystr option \<Rightarrow> error + pystr" where
  "need_str x = (case x of None \<Rightarrow> Inl TypeError | Some s \<Rightarrow> Inr s)"

definition generate_pdf ::
  "ucd \<Rightarrow> backend \<Rightarrow> pystr option \<Rightarrow> pystr option \<Rightarrow> pystr option \<Rightarrow> pystr option
     \<Rightarrow> pystr option \<Rightarrow> pystr \<Rightarrow> error + label" where
  "generate_pdf U B company_raw artikel_raw qty_raw batch_raw order_raw carton_no =
     (let company = sanitize_any U company_raw (Some (ustr ''COMPANY_NAME''));
          artikel_display = sanitize_any U artikel_raw (Some []);
          order_display = sanitize_any U order_raw (Some []);
          qty_digits = sanitize_numeric_keep_zeros U qty_raw (Some (ustr ''0''))
      in bind_err (strip_leading_zeros_keep_zero U qty_digits) (\<lambda>quantity_display.
         let batch_display = sanitize_any U batch_raw (Some (ustr ''1''));
             barcode_data = fmt artikel_display @ ustr ''|'' @ fmt qty_digits @ ustr ''|''
                              @ fmt batch_display @ ustr ''|'' @ carton_no
         in bind_err (safe_filename_component U company (Some (ustr ''Company''))) (\<lambda>c.
            bind_err (safe_filename_component U order_display (Some (ustr ''NoOrderNo''))) (\<lambda>ord.
            bind_err (safe_filename_component U batch_display (Some (ustr ''Batch''))) (\<lambda>b.
            bind_err (safe_filename_component U (Some barcode_data) (Some (ustr ''Barcode''))) (\<lambda>bc.
            let company_safe = truncate_component (Some c) 40;
                order_safe = truncate_component (Some ord) 40;
                batch_safe = truncate_component (Some b) 20;
                barcode_safe = truncate_component (Some bc) 80;
                pdf_file = company_safe @ ustr '' - Order '' @ order_safe @ ustr '', Batch ''
                             @ batch_safe @ ustr '', Box '' @ carton_no @ ustr ''.pdf''
            in bind_err (need_str company) (\<lambda>company_text.
               let font_size = header_font_size B company_text (label_w - 24);
                   initial_barcode = code128 B barcode_data initial_bar_height initial_bar_width;
                   size_width_init = fst initial_barcode;
                   size_height_init = snd initial_barcode
               in bind_err (barcode_fit initial_bar_width size_width_init size_height_init
                              size_width_target size_height_target) (\<lambda>ft.
                  Inr \<lparr> pdf_file = pdf_file,
                        header_text = company_text,
                        header_size = font_size,
                        article_row =
                          draw_row B (ustr ''Article No.'') (ustr ''(SKU)'') artikel_display True,
                        quantity_row =
                          draw_row B (ustr ''Quantity'') (ustr ''(Per box)'')
                            (Some quantity_display) False,
                        barcode_value = barcode_data,
                        barcode_bar_height = final_height ft,
                        barcode_bar_width = bar_width_final ft,
                        barcode_size =
                          code128 B barcode_data (final_height ft) (bar_width_final ft),
                        caption = barcode_data,
                        batch_row =
                          draw_row B (ustr ''Order Index'') (ustr ''(Nth item in your order)'')
                            batch_display True,
                        order_row =
                          draw_row B (ustr ''Order No.'') (ustr ''(Your order number)'')
                            order_display True,
                        box_row =
                          draw_row B (ustr ''Box No.'') (ustr ''(Nth box for this Article No.)'')
                            (Some carton_no) False \<rparr>))))))))"

section \<open>Batch driver\<close>

text \<open>
  \<open>run_csv\<close> over the rows that \<open>csv.reader\<close> yields. A row is skipped when it is
  empty or all its cells are blank.
\<close>

definition skipped :: "ucd \<Rightarrow> pystr list \<Rightarrow> bool" where
  "skipped U row = (row = [] \<or> list_all (\<lambda>cell. strip U cell = []) row)"

text \<open>
  The carton total of a data row:
  \<^verbatim>\<open>karton_digits = sanitize_numeric_keep_zeros(karton_raw, default="1")
  try:
      k_total = int(karton_digits) if karton_digits else 1
  except ValueError:
      k_total = 1
  if k_total < 1:
      k_total = 1\<close>
\<close>

definition carton_total :: "ucd \<Rightarrow> pystr \<Rightarrow> int" where
  "carton_total U karton_raw =
     (let karton_digits = sanitize_numeric_keep_zeros U (Some karton_raw) (Some (ustr ''1''));
          k_total =
            (case karton_digits of
               None \<Rightarrow> 1
             | Some d \<Rightarrow>
                 if d = [] then 1
                 else (case py_int U d of Inl e \<Rightarrow> 1 | Inr k \<Rightarrow> k))
      in if k_total < 1 then 1 else k_total)"

text \<open>Calls in sequence: the first error ends the run.\<close>

fun sequence :: "(error + 'a) list \<Rightarrow> error + 'a list" where
  "sequence [] = Inr []"
| "sequence (m # ms) =
     bind_err m (\<lambda>x. bind_err (sequence ms) (\<lambda>xs. Inr (x # xs)))"

definition data_row :: "ucd \<Rightarrow> backend \<Rightarrow> colmap \<Rightarrow> pystr list \<Rightarrow> error + label list" where
  "data_row U B cm row =
     (let company_raw = get_cell row (company cm) (ustr ''COMPANY_NAME'');
          artikel_raw = get_cell row (article cm) [];
          qty_raw = get_cell row (quantity cm) (ustr ''0'');
          batch_raw = get_cell row (batch cm) (ustr ''1'');
          order_raw = get_cell row (order_no cm) [];
          karton_raw = get_cell row (carton cm) (ustr ''1'');
          k_total = carton_total U karton_raw
      in sequence
           (map (\<lambda>k. generate_pdf U B (Some company_raw) (Some artikel_raw) (Some qty_raw)
                        (Some batch_raw) (Some order_raw) (py_str k))
              [1..k_total]))"

text \<open>
  The loop over the rows, with its two variables \<open>header\<close> and \<open>colmap\<close>
  (\<open>colmap.get\<close> on \<open>None\<close> would raise \<open>AttributeError\<close>).
\<close>

fun csv_loop ::
  "ucd \<Rightarrow> backend \<Rightarrow> pystr list option \<Rightarrow> colmap option \<Rightarrow> pystr list list
     \<Rightarrow> error + label list" where
  "csv_loop U B header cm [] = Inr []"
| "csv_loop U B header cm (row # rows) =
     (if skipped U row then csv_loop U B header cm rows
      else if header = None
      then csv_loop U B (Some row) (Some (build_column_map U row)) rows
      else (case cm of
              None \<Rightarrow> Inl AttributeError
            | Some m \<Rightarrow>
                bind_err (data_row U B m row) (\<lambda>ls.
                bind_err (csv_loop U B header cm rows) (\<lambda>more. Inr (ls @ more)))))"

definition run_csv :: "ucd \<Rightarrow> backend \<Rightarrow> pystr list list \<Rightarrow> error + label list" where
  "run_csv U B rows = csv_loop U B None None rows"

section \<open>Notions used in the statements\<close>

text \<open>
  No whitespace character is a decimal digit: a fact of the Unicode tables (the
  whitespace characters have the categories Zs, Zl, Zp and Cc, the decimal digits Nd),
  which the statements about the digits of a trimmed string assume.
\<close>

definition space_not_digit :: "ucd \<Rightarrow> bool" where
  "space_not_digit U = (\<forall>c. isspace U c \<longrightarrow> decimal U c = None)"

text \<open>The decimal digits of an input, in their order; none for \<open>None\<close>.\<close>

definition digit_string :: "ucd \<Rightarrow> pystr option \<Rightarrow> pystr" where
  "digit_string U v = (case v of None \<Rightarrow> [] | Some x \<Rightarrow> filter (isdigit U) x)"

text \<open>
  The characters \<open>0\<close> to \<open>9\<close> are decimal digits with their usual values: what \<open>int\<close>
  reads in \<open>"1"\<close> or \<open>"3"\<close>.
\<close>

definition ascii_digits :: "ucd \<Rightarrow> bool" where
  "ascii_digits U = (\<forall>c. 48 \<le> c \<and> c \<le> 57 \<longrightarrow> decimal U c = Some (c - 48))"

text \<open>
  The payload \<open>barcode_data\<close> that \<open>generate_pdf\<close> builds from its arguments, and the
  width of its baseline render.
\<close>

definition barcode_data ::
  "ucd \<Rightarrow> pystr option \<Rightarrow> pystr option \<Rightarrow> pystr option \<Rightarrow> pystr \<Rightarrow> pystr" where
  "barcode_data U artikel_raw qty_raw batch_raw carton_no =
     fmt (sanitize_any U artikel_raw (Some [])) @ ustr ''|''
       @ fmt (sanitize_numeric_keep_zeros U qty_raw (Some (ustr ''0''))) @ ustr ''|''
       @ fmt (sanitize_any U batch_raw (Some (ustr ''1''))) @ ustr ''|'' @ carton_no"

definition baseline_width ::
  "ucd \<Rightarrow> backend \<Rightarrow> pystr option \<Rightarrow> pystr option \<Rightarrow> pystr option \<Rightarrow> pystr \<Rightarrow> real" where
  "baseline_width U B artikel_raw qty_raw batch_raw carton_no =
     fst (code128 B (barcode_data U artikel_raw qty_raw batch_raw carton_no)
            initial_bar_height initial_bar_width)"

text \<open>
  A backend for the examples: a text is 0.6 of the font size wide per character; a
  barcode has eleven modules per character and 35 more, a quiet zone of 18 on
  either side, and the height of its bars.
\<close>

definition sample_backend :: backend where
  "sample_backend =
     \<lparr> stringWidth = (\<lambda>txt fnt sz. real (length txt) * real_of_int sz * 0.6),
       code128 = (\<lambda>v h w. ((11 * real (length v) + 35) * w + 36, h)),
       FONT_REGULAR = ustr ''Helvetica'',
       FONT_BOLD = ustr ''Helvetica-Bold'' \<rparr>"

text \<open>The backend renders every payload, at the baseline, with a width other than zero.\<close>

definition renders :: "backend \<Rightarrow> bool" where
  "renders B = (\<forall>v. fst (code128 B v initial_bar_height initial_bar_width) \<noteq> 0)"

text \<open>
  The call of \<open>generate_pdf\<close> that \<open>data_row\<close> makes for a carton number, and the carton
  cell it reads.
\<close>

definition row_call :: "ucd \<Rightarrow> backend \<Rightarrow> colmap \<Rightarrow> pystr list \<Rightarrow> pystr \<Rightarrow> error + label" where
  "row_call U B cm row carton_no =
     generate_pdf U B
       (Some (get_cell row (company cm) (ustr ''COMPANY_NAME'')))
       (Some (get_cell row (article cm) []))
       (Some (get_cell row (quantity cm) (ustr ''0'')))
       (Some (get_cell row (batch cm) (ustr ''1'')))
       (Some (get_cell row (order_no cm) []))
       carton_no"

definition karton_raw :: "colmap \<Rightarrow> pystr list \<Rightarrow> pystr" where
  "karton_raw cm row = get_cell row (carton cm) (ustr ''1'')"

text \<open>
  What a label shows of the carton number (the value of the Box row) and of the other
  fields of its row.
\<close>

definition other_fields :: "label \<Rightarrow> pystr \<times> int \<times> row \<times> row \<times> row \<times> row" where
  "other_fields L =
     (header_text L, header_size L, article_row L, quantity_row L, batch_row L, order_row L)"

definition carton_index :: "label \<Rightarrow> pystr option" where
  "carton_index L = map_option fst (row_value (box_row L))"

text \<open>A column map for the examples: the carton is the only column, at index 0.\<close>

definition carton_only :: colmap where
  "carton_only = \<lparr> company = None, article = None, quantity = None, batch = None,
                    order_no = None, carton = Some 0 \<rparr>"

text \<open>
  What the specification says of the rows after the header, to compare \<open>run_csv\<close> with:
  the data rows are processed in order with one column map (the first error ends the
  run). And a file for the examples.
\<close>

fun data_rows :: "ucd \<Rightarrow> backend \<Rightarrow> colmap \<Rightarrow> pystr list list \<Rightarrow> error + label list" where
  "data_rows U B cm [] = Inr []"
| "data_rows U B cm (row # rows) =
     bind_err (data_row U B cm row) (\<lambda>ls.
     bind_err (data_rows U B cm rows) (\<lambda>more. Inr (ls @ more)))"

definition example_csv :: "pystr list list" where
  "example_csv =
     [[], [ustr ''  '', []], [ustr ''Karton-Nr''], [ustr '' ''], [ustr ''2''], [], [ustr ''x'']]"

text \<open>
  A header cell matches a field when its normalized form matches one of the patterns of
  the field; \<open>first_match\<close> says that \<open>j\<close> is the index of the first such cell of the
  header row. \<open>fields\<close> lists the fields of the column map with their patterns.
\<close>

definition cell_matches :: "ucd \<Rightarrow> regex list \<Rightarrow> pystr \<Rightarrow> bool" where
  "cell_matches U patterns cell =
     (\<exists>p \<in> set patterns. re_search U p (normalize_for_match U (Some cell)))"

definition first_match :: "ucd \<Rightarrow> regex list \<Rightarrow> pystr list \<Rightarrow> int \<Rightarrow> bool" where
  "first_match U patterns header_row j =
     (0 \<le> j \<and> nat j < length header_row
      \<and> cell_matches U patterns (header_row ! nat j)
      \<and> (\<forall>i < nat j. \<not> cell_matches U patterns (header_row ! i)))"

definition fields :: "((colmap \<Rightarrow> int option) \<times> regex list) list" where
  "fields =
     [(company, company_patterns), (article, article_patterns),
      (quantity, quantity_patterns), (batch, batch_patterns),
      (order_no, order_patterns), (carton, carton_patterns)]"

text \<open>A header row for the examples; its third cell is \<open>STUCKZAHL\<close> with U umlaut.\<close>

definition example_header :: "pystr list" where
  "example_header =
     [ustr ''Firma'', ustr ''Artikel-Nr'', ustr '' ST'' @ [220] @ ustr ''CKZAHL '',
      ustr ''Menge'', ustr ''Chargen-Nr'', ustr ''Karton'']"

section \<open>Properties of the sanitizers\<close>

lemma ustr_zero: "ustr ''0'' = [48]"
  by (simp add: ustr_def)

lemma latin_space_not_digit: "space_not_digit latin_ucd"
  by (auto simp: space_not_digit_def latin_ucd_def latin_isspace_def latin_decimal_def)

lemma filter_dropWhile_disjoint:
  "(\<And>c. Q c \<Longrightarrow> \<not> P c) \<Longrightarrow> filter P (dropWhile Q xs) = filter P xs"
  by (induction xs) auto

text \<open>Trimming removes no digit.\<close>

lemma sub_nondigits_strip:
  assumes "space_not_digit U"
  shows "sub_nondigits U (strip U x) = filter (isdigit U) x"
proof -
  have d: "\<And>c. isspace U c \<Longrightarrow> \<not> isdigit U c"
    using assms by (simp add: space_not_digit_def isdigit_def)
  have "filter (isdigit U) (rev (dropWhile (isspace U) (rev (dropWhile (isspace U) x))))
        = rev (filter (isdigit U) (dropWhile (isspace U) (rev (dropWhile (isspace U) x))))"
    by (simp add: rev_filter)
  also have "\<dots> = rev (filter (isdigit U) (rev (dropWhile (isspace U) x)))"
    using d by (simp add: filter_dropWhile_disjoint)
  also have "\<dots> = filter (isdigit U) (dropWhile (isspace U) x)"
    by (simp add: rev_filter)
  also have "\<dots> = filter (isdigit U) x"
    using d by (simp add: filter_dropWhile_disjoint)
  finally show ?thesis
    by (simp add: sub_nondigits_def strip_def lstrip_ws_def)
qed

lemma sanitize_numeric_digit_string:
  assumes "space_not_digit U"
  shows "sanitize_numeric_keep_zeros U v (Some d) =
           Some (if digit_string U v = [] then d else digit_string U v)"
  using assms
  by (cases v)
     (simp_all add: sanitize_numeric_keep_zeros_def digit_string_def sub_nondigits_strip Let_def)

lemma dropWhile_zero_single: "dropWhile (\<lambda>c. c = (48::nat)) s \<noteq> [48]"
proof
  assume a: "dropWhile (\<lambda>c. c = (48::nat)) s = [48]"
  have "dropWhile (\<lambda>c. c = (48::nat)) s \<noteq> [] \<Longrightarrow> hd (dropWhile (\<lambda>c. c = (48::nat)) s) \<noteq> 48"
    using hd_dropWhile[of "\<lambda>c. c = (48::nat)" s] by blast
  with a show False by simp
qed

text \<open>
  C6, as the code has it. The digits that \<^verbatim>\<open>\D\<close> keeps are the decimal digits of every
  script, while \<open>lstrip("0")\<close> removes the character \<open>0\<close> (code point 48) only. For
  the input of two Arabic-Indic zeros (U+0660, a decimal digit of value 0) all digits
  are zeros, yet the result is these two characters, not \<open>"0"\<close>; and in an
  Arabic-Indic zero followed by \<open>5\<close> the leading zero is not removed.
\<close>

theorem strip_leading_zeros_keep_zero_counterexample:
  "decimal arabic_ucd 1632 = Some 0
   \<and> digit_string arabic_ucd (Some [1632, 1632]) = [1632, 1632]
   \<and> strip_leading_zeros_keep_zero arabic_ucd (Some [1632, 1632]) = Inr [1632, 1632]
   \<and> [1632, 1632] \<noteq> ustr ''0''
   \<and> digit_string arabic_ucd (Some [1632, 53]) = [1632, 53]
   \<and> strip_leading_zeros_keep_zero arabic_ucd (Some [1632, 53]) = Inr [1632, 53]"
  by (simp add: strip_leading_zeros_keep_zero_def sanitize_numeric_keep_zeros_def
      sub_nondigits_def strip_def lstrip_ws_def lstrip_zero_def isdigit_def digit_string_def
      arabic_ucd_def arabic_decimal_def latin_decimal_def latin_isspace_def ustr_def Let_def)

text \<open>
  C6, amended. For every input (\<open>None\<close> or a string), \<open>strip_leading_zeros_keep_zero\<close>
  returns a string, never the empty one; the result is \<open>"0"\<close> exactly when the input
  has no decimal digit or all its digits are the character \<open>0\<close> (code point 48);
  otherwise it is the digit string of the input without its leading characters \<open>0\<close>.
  A zero digit of another script is kept like any other digit.
\<close>

theorem strip_leading_zeros_keep_zero_result:
  assumes "space_not_digit U"
  shows "\<exists>r. strip_leading_zeros_keep_zero U v = Inr r \<and> r \<noteq> []
           \<and> (r = ustr ''0'' \<longleftrightarrow> (\<forall>c \<in> set (digit_string U v). c = 48))
           \<and> (r \<noteq> ustr ''0'' \<longrightarrow> r = dropWhile (\<lambda>c. c = 48) (digit_string U v))"
proof (cases "digit_string U v = []")
  case True
  then show ?thesis
    using assms
    by (simp add: strip_leading_zeros_keep_zero_def sanitize_numeric_digit_string
        lstrip_zero_def ustr_zero)
next
  case False
  then show ?thesis
    using assms dropWhile_zero_single[of "digit_string U v"]
    by (auto simp add: strip_leading_zeros_keep_zero_def sanitize_numeric_digit_string
        lstrip_zero_def ustr_zero Let_def)
qed

theorem strip_leading_zeros_keep_zero_result_witness:
  "space_not_digit latin_ucd
   \<and> strip_leading_zeros_keep_zero latin_ucd (Some (ustr '' 0045 pcs'')) = Inr (ustr ''45'')
   \<and> strip_leading_zeros_keep_zero latin_ucd (Some (ustr ''n/a'')) = Inr (ustr ''0'')
   \<and> (\<exists>r. strip_leading_zeros_keep_zero latin_ucd (Some (ustr '' 0045 pcs'')) = Inr r
          \<and> r \<noteq> []
          \<and> (r = ustr ''0'' \<longleftrightarrow>
               (\<forall>c \<in> set (digit_string latin_ucd (Some (ustr '' 0045 pcs''))). c = 48))
          \<and> (r \<noteq> ustr ''0'' \<longrightarrow>
               r = dropWhile (\<lambda>c. c = 48) (digit_string latin_ucd (Some (ustr '' 0045 pcs'')))))"
proof -
  have h: "space_not_digit latin_ucd"
    by (rule latin_space_not_digit)
  have e1: "strip_leading_zeros_keep_zero latin_ucd (Some (ustr '' 0045 pcs'')) = Inr (ustr ''45'')"
    by code_simp
  have e2: "strip_leading_zeros_keep_zero latin_ucd (Some (ustr ''n/a'')) = Inr (ustr ''0'')"
    by code_simp
  from strip_leading_zeros_keep_zero_result [OF h, of "Some (ustr '' 0045 pcs'')"] h e1 e2
  show ?thesis by blast
qed

lemma sanitize_numeric_Some:
  "\<exists>s. sanitize_numeric_keep_zeros U v (Some d) = Some s"
  by (cases v) (simp_all add: sanitize_numeric_keep_zeros_def Let_def)

lemma sanitize_any_Some:
  "\<exists>s. sanitize_any U v (Some d) = Some s"
  by (cases v) (simp_all add: sanitize_any_def Let_def)

lemma strip_leading_zeros_Inr:
  "\<exists>s. strip_leading_zeros_keep_zero U v = Inr s"
proof -
  obtain s where "sanitize_numeric_keep_zeros U v (Some (ustr ''0'')) = Some s"
    using sanitize_numeric_Some by blast
  then show ?thesis
    by (simp add: strip_leading_zeros_keep_zero_def Let_def)
qed

lemma safe_filename_component_Inr:
  "\<exists>s. safe_filename_component U v (Some d) = Inr s"
proof -
  obtain s where "sanitize_any U v (Some d) = Some s"
    using sanitize_any_Some by blast
  then show ?thesis
    by (simp add: safe_filename_component_def or_default_def)
qed

lemma length_truncate_component:
  "0 \<le> n \<Longrightarrow> length (truncate_component v n) \<le> nat n"
  by (cases v) (auto simp: truncate_component_def slice_to_def)

text \<open>
  C9, as the code has it. The claim promises a usable string for every input. The two
  sanitizers with a \<open>default\<close> parameter declare it as \<open>default=None\<close> and return it for
  an input that is \<open>None\<close> or sanitizes to the empty string: with the default left
  out, the result is \<open>None\<close>, not a string.
\<close>

theorem sanitizers_none_default_counterexample:
  "sanitize_numeric_keep_zeros latin_ucd (Some (ustr ''abc'')) None = None
   \<and> sanitize_any latin_ucd None None = None"
  by code_simp

text \<open>
  C9, amended. For every input value (\<open>None\<close> or a string) and every default that is a
  string, each sanitizer returns a string and raises nothing; \<open>truncate_component\<close>
  returns at most \<open>max_len\<close> characters. For the input \<open>None\<close> the result is the default
  (for \<open>safe_filename_component\<close> the default with its unsafe characters replaced and
  its whitespace collapsed and trimmed), \<open>"0"\<close> for \<open>strip_leading_zeros_keep_zero\<close> and
  the empty string for \<open>truncate_component\<close>.
\<close>

theorem sanitizers_total_string_default:
  "(\<exists>s. sanitize_numeric_keep_zeros U v (Some d) = Some s)
   \<and> (\<exists>s. sanitize_any U v (Some d) = Some s)
   \<and> (\<exists>s. strip_leading_zeros_keep_zero U v = Inr s)
   \<and> (\<exists>s. safe_filename_component U v (Some d) = Inr s)
   \<and> (0 \<le> n \<longrightarrow> length (truncate_component v n) \<le> nat n)
   \<and> sanitize_numeric_keep_zeros U None (Some d) = Some d
   \<and> sanitize_any U None (Some d) = Some d
   \<and> strip_leading_zeros_keep_zero U None = Inr (ustr ''0'')
   \<and> safe_filename_component U None (Some d) = Inr (strip U (sub_spaces U (sub_unsafe d)))
   \<and> truncate_component None n = []"
proof -
  have 1: "sanitize_numeric_keep_zeros U None (Some d) = Some d"
    by (simp add: sanitize_numeric_keep_zeros_def)
  have 2: "sanitize_any U None (Some d) = Some d"
    by (simp add: sanitize_any_def)
  have 3: "strip_leading_zeros_keep_zero U None = Inr (ustr ''0'')"
    by (simp add: strip_leading_zeros_keep_zero_def sanitize_numeric_keep_zeros_def
        lstrip_zero_def ustr_def Let_def)
  have 4: "safe_filename_component U None (Some d) = Inr (strip U (sub_spaces U (sub_unsafe d)))"
    by (cases "d = []")
       (simp_all add: safe_filename_component_def sanitize_any_def or_default_def)
  have 5: "truncate_component None n = []"
    by (simp add: truncate_component_def)
  show ?thesis
    using sanitize_numeric_Some sanitize_any_Some strip_leading_zeros_Inr
      safe_filename_component_Inr length_truncate_component 1 2 3 4 5
    by blast
qed

theorem sanitizers_total_string_default_witness:
  "(0::int) \<le> 4
   \<and> sanitize_numeric_keep_zeros latin_ucd (Some (ustr '' a/b  c? '')) (Some (ustr ''0''))
       = Some (ustr ''0'')
   \<and> sanitize_any latin_ucd (Some (ustr '' a/b  c? '')) (Some (ustr ''0'')) = Some (ustr ''a/b  c?'')
   \<and> safe_filename_component latin_ucd (Some (ustr '' a/b  c? '')) (Some (ustr ''0''))
       = Inr (ustr ''a_b c_'')
   \<and> truncate_component (Some (ustr '' a/b  c? '')) 4 = ustr '' a/b''
   \<and> length (truncate_component (Some (ustr '' a/b  c? '')) 4) \<le> nat 4
   \<and> safe_filename_component latin_ucd None (Some (ustr ''0'')) = Inr (ustr ''0'')"
proof -
  have e: "sanitize_numeric_keep_zeros latin_ucd (Some (ustr '' a/b  c? '')) (Some (ustr ''0''))
             = Some (ustr ''0'')
           \<and> sanitize_any latin_ucd (Some (ustr '' a/b  c? '')) (Some (ustr ''0''))
               = Some (ustr ''a/b  c?'')
           \<and> safe_filename_component latin_ucd (Some (ustr '' a/b  c? '')) (Some (ustr ''0''))
               = Inr (ustr ''a_b c_'')
           \<and> truncate_component (Some (ustr '' a/b  c? '')) 4 = ustr '' a/b''
           \<and> strip latin_ucd (sub_spaces latin_ucd (sub_unsafe (ustr ''0''))) = ustr ''0''"
    by code_simp
  from sanitizers_total_string_default
         [of latin_ucd "Some (ustr '' a/b  c? '')" "ustr ''0''" 4] e
  show ?thesis by simp
qed

section \<open>Properties of a label\<close>

lemma size_width_target_value: "size_width_target = 58836 / 127"
  by (simp add: size_width_target_def label_w_def A4_def mm_def inch_def Let_def)

lemma size_height_target_value: "size_height_target = 100"
  by (simp add: size_height_target_def Let_def)

lemma clamp_width_Inr:
  "0 \<le> tw \<Longrightarrow> \<exists>wh. clamp_width tw (fw, fh) = Inr wh"
  by (auto simp: clamp_width_def Let_def)

lemma clamp_height_Inr:
  "0 \<le> th \<Longrightarrow> \<exists>wh. clamp_height th (fw, fh) = Inr wh"
  by (auto simp: clamp_height_def Let_def)

lemma barcode_fit_Inr:
  assumes "w0 \<noteq> 0" and "0 \<le> tw" and "0 \<le> th"
  shows "\<exists>ft. barcode_fit ibw w0 h0 tw th = Inr ft"
proof -
  obtain cw ch where c: "candidate w0 h0 tw = (cw, ch)"
    by (cases "candidate w0 h0 tw")
  obtain w1 h1 where 1: "clamp_width tw (cw, ch) = Inr (w1, h1)"
    using clamp_width_Inr[OF assms(2), of cw ch] by auto
  obtain w2 h2 where 2: "clamp_height th (w1, h1) = Inr (w2, h2)"
    using clamp_height_Inr[OF assms(3), of w1 h1] by auto
  show ?thesis
    using assms(1) c 1 2 by (simp add: barcode_fit_def module_width_def Let_def)
qed

lemma generate_pdf_Inr:
  assumes "baseline_width U B a q b k \<noteq> 0"
  shows "\<exists>pf ct qd (ft::fit).
           sanitize_any U c (Some (ustr ''COMPANY_NAME'')) = Some ct
           \<and> strip_leading_zeros_keep_zero U (sanitize_numeric_keep_zeros U q (Some (ustr ''0'')))
               = Inr qd
           \<and> generate_pdf U B c a q b ord k =
               Inr \<lparr> pdf_file = pf,
                     header_text = ct,
                     header_size = header_font_size B ct (label_w - 24),
                     article_row = draw_row B (ustr ''Article No.'') (ustr ''(SKU)'')
                                     (sanitize_any U a (Some [])) True,
                     quantity_row = draw_row B (ustr ''Quantity'') (ustr ''(Per box)'')
                                      (Some qd) False,
                     barcode_value = barcode_data U a q b k,
                     barcode_bar_height = final_height ft,
                     barcode_bar_width = bar_width_final ft,
                     barcode_size = code128 B (barcode_data U a q b k) (final_height ft)
                                      (bar_width_final ft),
                     caption = barcode_data U a q b k,
                     batch_row = draw_row B (ustr ''Order Index'')
                                   (ustr ''(Nth item in your order)'')
                                   (sanitize_any U b (Some (ustr ''1''))) True,
                     order_row = draw_row B (ustr ''Order No.'') (ustr ''(Your order number)'')
                                   (sanitize_any U ord (Some [])) True,
                     box_row = draw_row B (ustr ''Box No.'')
                                 (ustr ''(Nth box for this Article No.)'') (Some k) False \<rparr>"
proof -
  obtain qd where qd: "strip_leading_zeros_keep_zero U
                         (sanitize_numeric_keep_zeros U q (Some (ustr ''0''))) = Inr qd"
    using strip_leading_zeros_Inr by blast
  obtain ct where ct: "sanitize_any U c (Some (ustr ''COMPANY_NAME'')) = Some ct"
    using sanitize_any_Some by blast
  obtain f1 where f1: "safe_filename_component U (Some ct) (Some (ustr ''Company'')) = Inr f1"
    using safe_filename_component_Inr by blast
  obtain f2 where f2: "safe_filename_component U (sanitize_any U ord (Some []))
                         (Some (ustr ''NoOrderNo'')) = Inr f2"
    using safe_filename_component_Inr by blast
  obtain f3 where f3: "safe_filename_component U (sanitize_any U b (Some (ustr ''1'')))
                         (Some (ustr ''Batch'')) = Inr f3"
    using safe_filename_component_Inr by blast
  obtain f4 where f4: "safe_filename_component U (Some (barcode_data U a q b k))
                         (Some (ustr ''Barcode'')) = Inr f4"
    using safe_filename_component_Inr by blast
  obtain ft where ft: "barcode_fit initial_bar_width
                         (fst (code128 B (barcode_data U a q b k) initial_bar_height initial_bar_width))
                         (snd (code128 B (barcode_data U a q b k) initial_bar_height initial_bar_width))
                         size_width_target size_height_target = Inr ft"
    using barcode_fit_Inr[OF assms[unfolded baseline_width_def], of size_width_target size_height_target]
    by (auto simp: size_width_target_value size_height_target_value)
  show ?thesis
    using qd ct f1 f2 f3 f4 ft
    by (simp add: generate_pdf_def Let_def bind_err_def need_str_def barcode_data_def[symmetric])
       blast
qed




lemma barcode_fit_zero_width:
  assumes "0 \<le> tw" and "0 \<le> th"
  shows "barcode_fit ibw 0 h0 tw th = Inl ZeroDivisionError"
proof -
  obtain cw ch where c: "candidate 0 h0 tw = (cw, ch)"
    by (cases "candidate 0 h0 tw")
  obtain w1 h1 where 1: "clamp_width tw (cw, ch) = Inr (w1, h1)"
    using clamp_width_Inr[OF assms(1), of cw ch] by auto
  obtain w2 h2 where 2: "clamp_height th (w1, h1) = Inr (w2, h2)"
    using clamp_height_Inr[OF assms(2), of w1 h1] by auto
  show ?thesis
    using c 1 2 by (simp add: barcode_fit_def module_width_def Let_def)
qed

lemma generate_pdf_zero_width:
  assumes "baseline_width U B a q b k = 0"
  shows "generate_pdf U B c a q b ord k = Inl ZeroDivisionError"
proof -
  obtain qd where qd: "strip_leading_zeros_keep_zero U
                         (sanitize_numeric_keep_zeros U q (Some (ustr ''0''))) = Inr qd"
    using strip_leading_zeros_Inr by blast
  obtain ct where ct: "sanitize_any U c (Some (ustr ''COMPANY_NAME'')) = Some ct"
    using sanitize_any_Some by blast
  obtain f1 where f1: "safe_filename_component U (Some ct) (Some (ustr ''Company'')) = Inr f1"
    using safe_filename_component_Inr by blast
  obtain f2 where f2: "safe_filename_component U (sanitize_any U ord (Some []))
                         (Some (ustr ''NoOrderNo'')) = Inr f2"
    using safe_filename_component_Inr by blast
  obtain f3 where f3: "safe_filename_component U (sanitize_any U b (Some (ustr ''1'')))
                         (Some (ustr ''Batch'')) = Inr f3"
    using safe_filename_component_Inr by blast
  obtain f4 where f4: "safe_filename_component U (Some (barcode_data U a q b k))
                         (Some (ustr ''Barcode'')) = Inr f4"
    using safe_filename_component_Inr by blast
  have ft: "barcode_fit initial_bar_width
              (fst (code128 B (barcode_data U a q b k) initial_bar_height initial_bar_width))
              (snd (code128 B (barcode_data U a q b k) initial_bar_height initial_bar_width))
              size_width_target size_height_target = Inl ZeroDivisionError"
    using assms barcode_fit_zero_width[of size_width_target size_height_target]
    by (simp add: baseline_width_def size_width_target_value size_height_target_value)
  show ?thesis
    using qd ct f1 f2 f3 f4 ft
    by (simp add: generate_pdf_def Let_def bind_err_def need_str_def barcode_data_def[symmetric])
qed




section \<open>Properties of the batch driver\<close>

lemma latin_ascii_digits: "ascii_digits latin_ucd"
  by (simp add: ascii_digits_def latin_ucd_def latin_decimal_def)

lemma sample_renders: "renders sample_backend"
  by (simp add: renders_def sample_backend_def initial_bar_width_def Let_def add_pos_nonneg
      less_imp_neq[THEN not_sym])

lemma digits_value_digits:
  "\<forall>c \<in> set s. isdigit U c \<Longrightarrow> \<exists>n. digits_value U acc s = Some n"
proof (induction s arbitrary: acc)
  case Nil
  then show ?case by simp
next
  case (Cons c s)
  then obtain d where "decimal U c = Some d"
    by (auto simp: isdigit_def)
  with Cons show ?case by simp
qed

lemma digits_value_digit_string:
  "\<exists>n. digits_value U 0 (digit_string U v) = Some n"
  by (rule digits_value_digits) (cases v; simp add: digit_string_def)

lemma carton_total_eq:
  assumes "space_not_digit U" and "ascii_digits U"
    and "digits_value U 0 (digit_string U (Some cell)) = Some n"
  shows "carton_total U cell
           = (if digit_string U (Some cell) = [] \<or> over_limit U (digit_string U (Some cell))
              then 1 else max 1 (int n))"
proof -
  have s: "sanitize_numeric_keep_zeros U (Some cell) (Some (ustr ''1''))
             = Some (if digit_string U (Some cell) = [] then ustr ''1''
                     else digit_string U (Some cell))"
    using assms(1) by (rule sanitize_numeric_digit_string)
  have u: "ustr ''1'' = [49]" by (simp add: ustr_def)
  show ?thesis
  proof (cases "digit_string U (Some cell) = []")
    case True
    then show ?thesis
      using s assms(2)
      by (simp add: carton_total_def u py_int_def over_limit_def Let_def ascii_digits_def)
  next
    case False
    then show ?thesis
      using s assms(3) by (simp add: carton_total_def py_int_def Let_def max_def)
  qed
qed

lemma carton_total_ge_1: "1 \<le> carton_total U cell"
  by (simp add: carton_total_def Let_def)

lemma data_row_calls:
  "data_row U B cm row
     = sequence (map (\<lambda>k. row_call U B cm row (py_str k)) [1..carton_total U (karton_raw cm row)])"
  by (simp add: data_row_def row_call_def karton_raw_def Let_def)

lemma sequence_Inr:
  "\<forall>m \<in> set ms. \<exists>x. m = Inr x \<Longrightarrow>
   \<exists>xs. sequence ms = Inr xs \<and> map Inr xs = ms"
proof (induction ms)
  case Nil
  then show ?case by simp
next
  case (Cons m ms)
  then obtain x xs where "m = Inr x" and "sequence ms = Inr xs" and "map Inr xs = ms"
    by auto
  then show ?case by (simp add: bind_err_def)
qed

lemma row_call_Inr:
  assumes "renders B"
  shows "\<exists>L. row_call U B cm row k = Inr L"
proof -
  have "baseline_width U B (Some (get_cell row (article cm) []))
          (Some (get_cell row (quantity cm) (ustr ''0'')))
          (Some (get_cell row (batch cm) (ustr ''1''))) k \<noteq> 0"
    using assms by (simp add: renders_def baseline_width_def)
  from generate_pdf_Inr[OF this] show ?thesis
    unfolding row_call_def by blast
qed

lemma data_row_Inr:
  assumes "renders B"
  shows "\<exists>ls. data_row U B cm row = Inr ls
           \<and> map Inr ls = map (\<lambda>k. row_call U B cm row (py_str k))
                             [1..carton_total U (karton_raw cm row)]"
  unfolding data_row_calls
  by (rule sequence_Inr) (use row_call_Inr[OF assms] in auto)

lemma digits_value_leading_zeros:
  "decimal U 48 = Some 0 \<Longrightarrow> digits_value U 0 (replicate m 48 @ s) = digits_value U 0 s"
  by (induction m) simp_all

lemma strip_no_space:
  assumes "\<forall>c \<in> set s. \<not> isspace U c"
  shows "strip U s = s"
proof -
  have "dropWhile (isspace U) s = s"
    using assms by (cases s) simp_all
  moreover have "dropWhile (isspace U) (rev s) = rev s"
    using assms by (cases "rev s") (simp, metis dropWhile.simps(2) list.set_intros(1) set_rev)
  ultimately show ?thesis
    by (simp add: strip_def lstrip_ws_def)
qed

lemma long_cell_digits:
  "sub_nondigits latin_ucd (strip latin_ucd (replicate m 48 @ [50])) = replicate m 48 @ [50]"
proof -
  have "strip latin_ucd (replicate m 48 @ [50]) = replicate m 48 @ [50]"
    by (rule strip_no_space) (auto simp: latin_ucd_def latin_isspace_def)
  then show ?thesis
    by (simp add: sub_nondigits_def isdigit_def latin_ucd_def latin_decimal_def)
qed

lemma long_cell_total:
  assumes "4300 \<le> m"
  shows "sanitize_numeric_keep_zeros latin_ucd (Some (replicate m 48 @ [50])) (Some (ustr ''1''))
           = Some (replicate m 48 @ [50])"
    and "digits_value latin_ucd 0 (replicate m 48 @ [50]) = Some 2"
    and "py_int latin_ucd (replicate m 48 @ [50]) = Inl ValueError"
    and "carton_total latin_ucd (replicate m 48 @ [50]) = 1"
    and "map_sum id length
           (data_row latin_ucd sample_backend carton_only [replicate m 48 @ [50]]) = Inr 1"
proof -
  let ?cell = "replicate m 48 @ [50::nat]"
  show s: "sanitize_numeric_keep_zeros latin_ucd (Some ?cell) (Some (ustr ''1'')) = Some ?cell"
    by (simp add: sanitize_numeric_keep_zeros_def long_cell_digits Let_def)
  have "digits_value latin_ucd 0 ?cell = digits_value latin_ucd 0 [50]"
    by (rule digits_value_leading_zeros) (simp add: latin_ucd_def latin_decimal_def)
  then show v: "digits_value latin_ucd 0 ?cell = Some 2"
    by (simp add: latin_ucd_def latin_decimal_def)
  have o: "over_limit latin_ucd ?cell"
    using assms by (simp add: over_limit_def latin_ucd_def)
  show i: "py_int latin_ucd ?cell = Inl ValueError"
    using v o by (simp add: py_int_def)
  show t: "carton_total latin_ucd ?cell = 1"
    using s i by (simp add: carton_total_def Let_def)
  have k: "karton_raw carton_only [?cell] = ?cell"
    by (simp add: karton_raw_def carton_only_def get_cell_def)
  obtain ls where ls: "data_row latin_ucd sample_backend carton_only [?cell] = Inr ls"
    and m: "map Inr ls = map (\<lambda>k. row_call latin_ucd sample_backend carton_only [?cell] (py_str k))
                             [1..carton_total latin_ucd (karton_raw carton_only [?cell])]"
    using data_row_Inr[OF sample_renders] by blast
  have "length (map (Inr :: label \<Rightarrow> error + label) ls) = 1"
    unfolding m k t by simp
  then show "map_sum id length (data_row latin_ucd sample_backend carton_only [?cell]) = Inr 1"
    using ls by simp
qed

text \<open>
  C10, as the code has it. With the limit of 4300 digits, a carton cell of 4300 zeros
  followed by \<open>2\<close> has digits, which denote 2; \<open>int\<close> raises \<open>ValueError\<close> on them, the
  \<open>except\<close> branch sets the total to 1, and the row yields one label, not two.
\<close>

theorem carton_total_digits_counterexample:
  "sanitize_numeric_keep_zeros latin_ucd (Some (replicate 4300 48 @ [50])) (Some (ustr ''1''))
     = Some (replicate 4300 48 @ [50])
   \<and> digits_value latin_ucd 0 (replicate 4300 48 @ [50]) = Some 2
   \<and> py_int latin_ucd (replicate 4300 48 @ [50]) = Inl ValueError
   \<and> carton_total latin_ucd (replicate 4300 48 @ [50]) = 1
   \<and> map_sum id length
         (data_row latin_ucd sample_backend carton_only [replicate 4300 48 @ [50]]) = Inr 1"
  by (intro conjI long_cell_total) simp_all

text \<open>
  C10, amended. The carton total is read from the decimal digits of the carton cell, in
  their order, every other character being ignored: the sanitizer returns that digit
  string, and the default \<open>"1"\<close> only when there is no digit. When the digit string is
  within the interpreter's limit for \<open>int\<close>, the total is the number the digits denote
  (at least 1); when it is longer, \<open>int\<close> raises \<open>ValueError\<close> and the total is 1, as
  for a cell without a digit. The row yields that many labels.
\<close>

theorem carton_total_digits:
  assumes "space_not_digit U" and "ascii_digits U" and "renders B"
  shows "\<exists>n ls. digits_value U 0 (digit_string U (Some (karton_raw cm row))) = Some n
           \<and> sanitize_numeric_keep_zeros U (Some (karton_raw cm row)) (Some (ustr ''1''))
               = Some (if digit_string U (Some (karton_raw cm row)) = [] then ustr ''1''
                       else digit_string U (Some (karton_raw cm row)))
           \<and> carton_total U (karton_raw cm row)
               = (if digit_string U (Some (karton_raw cm row)) = []
                     \<or> over_limit U (digit_string U (Some (karton_raw cm row)))
                  then 1 else max 1 (int n))
           \<and> data_row U B cm row = Inr ls
           \<and> int (length ls) = carton_total U (karton_raw cm row)"
proof -
  obtain n where n: "digits_value U 0 (digit_string U (Some (karton_raw cm row))) = Some n"
    using digits_value_digit_string by blast
  obtain ls where ls: "data_row U B cm row = Inr ls"
    and m: "map Inr ls = map (\<lambda>k. row_call U B cm row (py_str k))
                             [1..carton_total U (karton_raw cm row)]"
    using data_row_Inr[OF assms(3)] by blast
  have "length (map (Inr :: label \<Rightarrow> error + label) ls) = nat (carton_total U (karton_raw cm row))"
    unfolding m by simp
  then have len: "int (length ls) = carton_total U (karton_raw cm row)"
    using carton_total_ge_1[of U "karton_raw cm row"] by simp
  show ?thesis
    using n ls len carton_total_eq[OF assms(1,2) n] sanitize_numeric_digit_string[OF assms(1)]
    by blast
qed

theorem carton_total_digits_witness:
  "space_not_digit latin_ucd \<and> ascii_digits latin_ucd \<and> renders sample_backend
   \<and> karton_raw carton_only [ustr ''-3''] = ustr ''-3''
   \<and> digit_string latin_ucd (Some (ustr ''-3'')) = ustr ''3''
   \<and> carton_total latin_ucd (ustr ''-3'') = 3
   \<and> (\<exists>ls. data_row latin_ucd sample_backend carton_only [ustr ''-3''] = Inr ls
          \<and> int (length ls) = 3)
   \<and> karton_raw carton_only [ustr ''1x2''] = ustr ''1x2''
   \<and> digit_string latin_ucd (Some (ustr ''1x2'')) = ustr ''12''
   \<and> carton_total latin_ucd (ustr ''1x2'') = 12
   \<and> (\<exists>ls. data_row latin_ucd sample_backend carton_only [ustr ''1x2''] = Inr ls
          \<and> int (length ls) = 12)"
proof -
  have k: "karton_raw carton_only [ustr ''-3''] = ustr ''-3''
           \<and> karton_raw carton_only [ustr ''1x2''] = ustr ''1x2''"
    by (simp add: karton_raw_def carton_only_def get_cell_def)
  have d: "digit_string latin_ucd (Some (ustr ''-3'')) = ustr ''3''
           \<and> digit_string latin_ucd (Some (ustr ''1x2'')) = ustr ''12''
           \<and> digits_value latin_ucd 0 (ustr ''3'') = Some 3
           \<and> digits_value latin_ucd 0 (ustr ''12'') = Some 12"
    by code_simp
  have n: "ustr ''3'' \<noteq> [] \<and> ustr ''12'' \<noteq> []
           \<and> \<not> over_limit latin_ucd (ustr ''3'') \<and> \<not> over_limit latin_ucd (ustr ''12'')"
    by (simp add: ustr_def over_limit_def)
  from carton_total_digits [OF latin_space_not_digit latin_ascii_digits sample_renders,
         of carton_only "[ustr ''-3'']"]
    carton_total_digits [OF latin_space_not_digit latin_ascii_digits sample_renders,
         of carton_only "[ustr ''1x2'']"]
    k d n latin_space_not_digit latin_ascii_digits sample_renders
  show ?thesis by auto
qed

lemma row_call_fields:
  assumes "row_call U B cm row k = Inr L"
  shows "carton_index L = Some k"
    and "row_call U B cm row k' = Inr L' \<Longrightarrow> other_fields L' = other_fields L"
proof -
  let ?c = "Some (get_cell row (company cm) (ustr ''COMPANY_NAME''))"
  let ?a = "Some (get_cell row (article cm) [])"
  let ?q = "Some (get_cell row (quantity cm) (ustr ''0''))"
  let ?b = "Some (get_cell row (batch cm) (ustr ''1''))"
  let ?o = "Some (get_cell row (order_no cm) [])"
  have g: "generate_pdf U B ?c ?a ?q ?b ?o k = Inr L"
    using assms by (simp add: row_call_def)
  have w: "baseline_width U B ?a ?q ?b k \<noteq> 0"
    using g generate_pdf_zero_width[of U B ?a ?q ?b k ?c ?o] by auto
  from generate_pdf_Inr[OF w, of ?c ?o] g
  have f: "box_row L = draw_row B (ustr ''Box No.'') (ustr ''(Nth box for this Article No.)'')
                         (Some k) False"
    and o: "\<exists>ct qd. sanitize_any U ?c (Some (ustr ''COMPANY_NAME'')) = Some ct
              \<and> strip_leading_zeros_keep_zero U
                   (sanitize_numeric_keep_zeros U ?q (Some (ustr ''0''))) = Inr qd
              \<and> other_fields L =
                  (ct, header_font_size B ct (label_w - 24),
                   draw_row B (ustr ''Article No.'') (ustr ''(SKU)'')
                     (sanitize_any U ?a (Some [])) True,
                   draw_row B (ustr ''Quantity'') (ustr ''(Per box)'') (Some qd) False,
                   draw_row B (ustr ''Order Index'') (ustr ''(Nth item in your order)'')
                     (sanitize_any U ?b (Some (ustr ''1''))) True,
                   draw_row B (ustr ''Order No.'') (ustr ''(Your order number)'')
                     (sanitize_any U ?o (Some [])) True)"
    by (auto simp: other_fields_def)
  from f show "carton_index L = Some k"
    by (simp add: carton_index_def draw_row_def)
  assume L': "row_call U B cm row k' = Inr L'"
  have g': "generate_pdf U B ?c ?a ?q ?b ?o k' = Inr L'"
    using L' by (simp add: row_call_def)
  have w': "baseline_width U B ?a ?q ?b k' \<noteq> 0"
    using g' generate_pdf_zero_width[of U B ?a ?q ?b k' ?c ?o] by auto
  from generate_pdf_Inr[OF w', of ?c ?o] g'
  have o': "\<exists>ct qd. sanitize_any U ?c (Some (ustr ''COMPANY_NAME'')) = Some ct
              \<and> strip_leading_zeros_keep_zero U
                   (sanitize_numeric_keep_zeros U ?q (Some (ustr ''0''))) = Inr qd
              \<and> other_fields L' =
                  (ct, header_font_size B ct (label_w - 24),
                   draw_row B (ustr ''Article No.'') (ustr ''(SKU)'')
                     (sanitize_any U ?a (Some [])) True,
                   draw_row B (ustr ''Quantity'') (ustr ''(Per box)'') (Some qd) False,
                   draw_row B (ustr ''Order Index'') (ustr ''(Nth item in your order)'')
                     (sanitize_any U ?b (Some (ustr ''1''))) True,
                   draw_row B (ustr ''Order No.'') (ustr ''(Your order number)'')
                     (sanitize_any U ?o (Some [])) True)"
    by (auto simp: other_fields_def)
  from o o' show "other_fields L' = other_fields L"
    by auto
qed

lemma py_str_123: "map py_str [1..3] = [ustr ''1'', ustr ''2'', ustr ''3'']"
  by code_simp

lemma py_str_1: "map py_str [1..1] = [ustr ''1'']"
  by code_simp

lemma carton_total_3:
  assumes "ascii_digits U"
    and "sanitize_numeric_keep_zeros U (Some cell) (Some (ustr ''1'')) = Some (ustr ''3'')"
  shows "carton_total U cell = 3"
proof -
  have "decimal U 51 = Some 3"
    using assms(1) by (simp add: ascii_digits_def)
  then show ?thesis
    using assms(2) by (simp add: carton_total_def py_int_def over_limit_def ustr_def Let_def)
qed

text \<open>
  C4. A data row whose carton cell sanitizes to the digit string \<open>"3"\<close> yields exactly
  three labels, from three calls of \<open>generate_pdf\<close> with the carton numbers \<open>"1"\<close>,
  \<open>"2"\<close>, \<open>"3"\<close> in this order and the same other arguments: the labels show these
  carton numbers and agree in every other field. A carton cell without a digit, or whose
  digits denote zero, yields exactly one label, with carton number \<open>"1"\<close>.
\<close>

theorem carton_expansion:
  assumes "space_not_digit U" and "ascii_digits U" and "renders B"
  shows "(sanitize_numeric_keep_zeros U (Some (karton_raw cm row)) (Some (ustr ''1''))
            = Some (ustr ''3'') \<longrightarrow>
          (\<exists>l1 l2 l3. data_row U B cm row = Inr [l1, l2, l3]
             \<and> row_call U B cm row (ustr ''1'') = Inr l1
             \<and> row_call U B cm row (ustr ''2'') = Inr l2
             \<and> row_call U B cm row (ustr ''3'') = Inr l3
             \<and> carton_index l1 = Some (ustr ''1'')
             \<and> carton_index l2 = Some (ustr ''2'')
             \<and> carton_index l3 = Some (ustr ''3'')
             \<and> other_fields l2 = other_fields l1
             \<and> other_fields l3 = other_fields l1))
       \<and> (digit_string U (Some (karton_raw cm row)) = []
            \<or> digits_value U 0 (digit_string U (Some (karton_raw cm row))) = Some 0 \<longrightarrow>
          (\<exists>l1. data_row U B cm row = Inr [l1]
             \<and> row_call U B cm row (ustr ''1'') = Inr l1
             \<and> carton_index l1 = Some (ustr ''1'')))"
proof (intro conjI impI)
  assume "sanitize_numeric_keep_zeros U (Some (karton_raw cm row)) (Some (ustr ''1''))
            = Some (ustr ''3'')"
  then have t: "carton_total U (karton_raw cm row) = 3"
    using assms(2) by (simp add: carton_total_3)
  obtain ls where ls: "data_row U B cm row = Inr ls"
    and m: "map Inr ls = map (\<lambda>k. row_call U B cm row (py_str k))
                             [1..carton_total U (karton_raw cm row)]"
    using data_row_Inr[OF assms(3)] by blast
  have "map Inr ls = map (row_call U B cm row) (map py_str [1..3])"
    using m t by simp
  then have m3: "map Inr ls = [row_call U B cm row (ustr ''1''), row_call U B cm row (ustr ''2''),
                               row_call U B cm row (ustr ''3'')]"
    by (simp only: py_str_123 list.map)
  then obtain l1 l2 l3 where l: "ls = [l1, l2, l3]"
    by (auto simp: map_eq_Cons_conv)
  with m3 have c: "row_call U B cm row (ustr ''1'') = Inr l1"
    "row_call U B cm row (ustr ''2'') = Inr l2"
    "row_call U B cm row (ustr ''3'') = Inr l3"
    by simp_all
  show "\<exists>l1 l2 l3. data_row U B cm row = Inr [l1, l2, l3]
             \<and> row_call U B cm row (ustr ''1'') = Inr l1
             \<and> row_call U B cm row (ustr ''2'') = Inr l2
             \<and> row_call U B cm row (ustr ''3'') = Inr l3
             \<and> carton_index l1 = Some (ustr ''1'')
             \<and> carton_index l2 = Some (ustr ''2'')
             \<and> carton_index l3 = Some (ustr ''3'')
             \<and> other_fields l2 = other_fields l1
             \<and> other_fields l3 = other_fields l1"
    using ls l c row_call_fields(1)[OF c(1)] row_call_fields(1)[OF c(2)]
      row_call_fields(1)[OF c(3)] row_call_fields(2)[OF c(1) c(2)]
      row_call_fields(2)[OF c(1) c(3)]
    by blast
next
  assume a: "digit_string U (Some (karton_raw cm row)) = []
            \<or> digits_value U 0 (digit_string U (Some (karton_raw cm row))) = Some 0"
  obtain n where n: "digits_value U 0 (digit_string U (Some (karton_raw cm row))) = Some n"
    using digits_value_digit_string by blast
  have t: "carton_total U (karton_raw cm row) = 1"
    using a n carton_total_eq[OF assms(1,2) n] by auto
  obtain ls where ls: "data_row U B cm row = Inr ls"
    and m: "map Inr ls = map (\<lambda>k. row_call U B cm row (py_str k))
                             [1..carton_total U (karton_raw cm row)]"
    using data_row_Inr[OF assms(3)] by blast
  have "map Inr ls = map (row_call U B cm row) (map py_str [1..1])"
    using m t by simp
  then have m1: "map Inr ls = [row_call U B cm row (ustr ''1'')]"
    by (simp only: py_str_1 list.map)
  then obtain l1 where l: "ls = [l1]"
    by (auto simp: map_eq_Cons_conv)
  with m1 have c: "row_call U B cm row (ustr ''1'') = Inr l1"
    by simp
  show "\<exists>l1. data_row U B cm row = Inr [l1]
             \<and> row_call U B cm row (ustr ''1'') = Inr l1
             \<and> carton_index l1 = Some (ustr ''1'')"
    using ls l c row_call_fields(1)[OF c] by blast
qed

theorem carton_expansion_witness:
  "space_not_digit latin_ucd \<and> ascii_digits latin_ucd \<and> renders sample_backend
   \<and> sanitize_numeric_keep_zeros latin_ucd (Some (karton_raw carton_only [ustr '' 3 '']))
        (Some (ustr ''1'')) = Some (ustr ''3'')
   \<and> (\<exists>l1 l2 l3. data_row latin_ucd sample_backend carton_only [ustr '' 3 ''] = Inr [l1, l2, l3]
          \<and> carton_index l1 = Some (ustr ''1'')
          \<and> carton_index l2 = Some (ustr ''2'')
          \<and> carton_index l3 = Some (ustr ''3'')
          \<and> other_fields l2 = other_fields l1
          \<and> other_fields l3 = other_fields l1)
   \<and> digit_string latin_ucd (Some (karton_raw carton_only [ustr ''abc''])) = []
   \<and> (\<exists>l1. data_row latin_ucd sample_backend carton_only [ustr ''abc''] = Inr [l1]
          \<and> carton_index l1 = Some (ustr ''1''))
   \<and> digits_value latin_ucd 0 (digit_string latin_ucd (Some (karton_raw carton_only [ustr ''0''])))
       = Some 0
   \<and> (\<exists>l1. data_row latin_ucd sample_backend carton_only [ustr ''0''] = Inr [l1]
          \<and> carton_index l1 = Some (ustr ''1''))"
proof -
  have e: "sanitize_numeric_keep_zeros latin_ucd (Some (karton_raw carton_only [ustr '' 3 '']))
             (Some (ustr ''1'')) = Some (ustr ''3'')
           \<and> digit_string latin_ucd (Some (karton_raw carton_only [ustr ''abc''])) = []
           \<and> digits_value latin_ucd 0
                (digit_string latin_ucd (Some (karton_raw carton_only [ustr ''0'']))) = Some 0"
    by code_simp
  from carton_expansion [OF latin_space_not_digit latin_ascii_digits sample_renders,
         of carton_only "[ustr '' 3 '']"]
    carton_expansion [OF latin_space_not_digit latin_ascii_digits sample_renders,
         of carton_only "[ustr ''abc'']"]
    carton_expansion [OF latin_space_not_digit latin_ascii_digits sample_renders,
         of carton_only "[ustr ''0'']"]
    e latin_space_not_digit latin_ascii_digits sample_renders
  show ?thesis by blast
qed

lemma csv_loop_after_header:
  "csv_loop U B (Some h) (Some m) rows
     = data_rows U B m (filter (\<lambda>r. \<not> skipped U r) rows)"
  by (induction rows) simp_all

text \<open>
  C8. \<open>run_csv\<close> behaves as if the skipped rows (empty, or with blank cells only) were
  not in the file, wherever they stand: of the remaining rows the first is the header,
  whatever it contains, and gives the column map; every later one is processed as a data
  row, in order. A file without a remaining row produces nothing.
\<close>

theorem run_csv_rows:
  "run_csv U B rows =
     (case filter (\<lambda>r. \<not> skipped U r) rows of
        [] \<Rightarrow> Inr []
      | header # data \<Rightarrow> data_rows U B (build_column_map U header) data)"
  unfolding run_csv_def
  by (induction rows) (simp_all add: csv_loop_after_header)

theorem run_csv_rows_witness:
  "filter (\<lambda>r. \<not> skipped latin_ucd r) example_csv
     = [[ustr ''Karton-Nr''], [ustr ''2''], [ustr ''x'']]
   \<and> build_column_map latin_ucd [ustr ''Karton-Nr''] = carton_only
   \<and> run_csv latin_ucd sample_backend example_csv
       = data_rows latin_ucd sample_backend carton_only [[ustr ''2''], [ustr ''x'']]"
proof -
  have f: "filter (\<lambda>r. \<not> skipped latin_ucd r) example_csv
             = [[ustr ''Karton-Nr''], [ustr ''2''], [ustr ''x'']]"
    by code_simp
  have c: "build_column_map latin_ucd [ustr ''Karton-Nr''] = carton_only"
    by code_simp
  from run_csv_rows [of latin_ucd sample_backend example_csv] f c
  show ?thesis by simp
qed

section \<open>Properties of the column resolver\<close>

lemma any_pattern_iff: "any_pattern U ps h \<longleftrightarrow> (\<exists>p \<in> set ps. re_search U p h)"
  by (induction ps) auto

lemma find_idx_from_Some:
  "find_idx_from U ps k hs = Some j \<longleftrightarrow>
     (\<exists>i < length hs. j = k + int i \<and> any_pattern U ps (hs ! i)
        \<and> (\<forall>i' < i. \<not> any_pattern U ps (hs ! i')))"
proof (induction hs arbitrary: k)
  case Nil
  then show ?case by simp
next
  case (Cons h hs)
  show ?case
  proof (cases "any_pattern U ps h")
    case True
    show ?thesis
    proof
      assume "find_idx_from U ps k (h # hs) = Some j"
      with True have "j = k" by simp
      with True show "\<exists>i < length (h # hs). j = k + int i \<and> any_pattern U ps ((h # hs) ! i)
        \<and> (\<forall>i' < i. \<not> any_pattern U ps ((h # hs) ! i'))"
        by (intro exI[of _ 0]) simp
    next
      assume "\<exists>i < length (h # hs). j = k + int i \<and> any_pattern U ps ((h # hs) ! i)
        \<and> (\<forall>i' < i. \<not> any_pattern U ps ((h # hs) ! i'))"
      then obtain i where i: "j = k + int i" "\<forall>i' < i. \<not> any_pattern U ps ((h # hs) ! i')"
        by blast
      have "i = 0"
      proof (rule ccontr)
        assume "i \<noteq> 0"
        then have "0 < i" by simp
        with i(2) have "\<not> any_pattern U ps ((h # hs) ! 0)" by blast
        with True show False by simp
      qed
      with i True show "find_idx_from U ps k (h # hs) = Some j" by simp
    qed
  next
    case False
    have "find_idx_from U ps k (h # hs) = Some j \<longleftrightarrow> find_idx_from U ps (k + 1) hs = Some j"
      using False by simp
    also have "\<dots> \<longleftrightarrow> (\<exists>i < length hs. j = k + 1 + int i \<and> any_pattern U ps (hs ! i)
        \<and> (\<forall>i' < i. \<not> any_pattern U ps (hs ! i')))"
      by (rule Cons.IH)
    also have "\<dots> \<longleftrightarrow> (\<exists>i < length (h # hs). j = k + int i \<and> any_pattern U ps ((h # hs) ! i)
        \<and> (\<forall>i' < i. \<not> any_pattern U ps ((h # hs) ! i')))"
    proof
      assume "\<exists>i < length hs. j = k + 1 + int i \<and> any_pattern U ps (hs ! i)
        \<and> (\<forall>i' < i. \<not> any_pattern U ps (hs ! i'))"
      then obtain i where i: "i < length hs" "j = k + 1 + int i" "any_pattern U ps (hs ! i)"
        "\<forall>i' < i. \<not> any_pattern U ps (hs ! i')"
        by blast
      have "\<forall>i' < Suc i. \<not> any_pattern U ps ((h # hs) ! i')"
        using i(4) False by (auto simp: nth_Cons split: nat.splits)
      with i show "\<exists>i < length (h # hs). j = k + int i \<and> any_pattern U ps ((h # hs) ! i)
        \<and> (\<forall>i' < i. \<not> any_pattern U ps ((h # hs) ! i'))"
        by (intro exI[of _ "Suc i"]) simp
    next
      assume "\<exists>i < length (h # hs). j = k + int i \<and> any_pattern U ps ((h # hs) ! i)
        \<and> (\<forall>i' < i. \<not> any_pattern U ps ((h # hs) ! i'))"
      then obtain i where i: "i < length (h # hs)" "j = k + int i"
        "any_pattern U ps ((h # hs) ! i)" "\<forall>i' < i. \<not> any_pattern U ps ((h # hs) ! i')"
        by blast
      from i(3) False obtain i0 where i0: "i = Suc i0"
        by (cases i) auto
      have "\<forall>i' < i0. \<not> any_pattern U ps (hs ! i')"
      proof (intro allI impI)
        fix i' assume "i' < i0"
        then have "Suc i' < i" using i0 by simp
        with i(4) have "\<not> any_pattern U ps ((h # hs) ! Suc i')" by blast
        then show "\<not> any_pattern U ps (hs ! i')" by simp
      qed
      with i i0 show "\<exists>i < length hs. j = k + 1 + int i \<and> any_pattern U ps (hs ! i)
        \<and> (\<forall>i' < i. \<not> any_pattern U ps (hs ! i'))"
        by (intro exI[of _ i0]) simp
    qed
    finally show ?thesis .
  qed
qed

lemma find_idx_from_None:
  "find_idx_from U ps k hs = None \<longleftrightarrow> (\<forall>i < length hs. \<not> any_pattern U ps (hs ! i))"
proof (induction hs arbitrary: k)
  case Nil
  then show ?case by simp
next
  case (Cons h hs)
  show ?case
    by (auto simp: Cons.IH nth_Cons less_Suc_eq_0_disj split: nat.splits)
qed

lemma find_idx_first_match:
  "find_idx U (map (\<lambda>h. normalize_for_match U (Some h)) header_row) patterns = Some j
     \<longleftrightarrow> first_match U patterns header_row j"
proof -
  have "find_idx U (map (\<lambda>h. normalize_for_match U (Some h)) header_row) patterns = Some j
        \<longleftrightarrow> (\<exists>i < length header_row. j = int i \<and> cell_matches U patterns (header_row ! i)
              \<and> (\<forall>i' < i. \<not> cell_matches U patterns (header_row ! i')))"
    by (auto simp: find_idx_def find_idx_from_Some any_pattern_iff cell_matches_def)
  also have "\<dots> \<longleftrightarrow> first_match U patterns header_row j"
    unfolding first_match_def
  proof
    assume "\<exists>i < length header_row. j = int i \<and> cell_matches U patterns (header_row ! i)
              \<and> (\<forall>i' < i. \<not> cell_matches U patterns (header_row ! i'))"
    then show "0 \<le> j \<and> nat j < length header_row
      \<and> cell_matches U patterns (header_row ! nat j)
      \<and> (\<forall>i < nat j. \<not> cell_matches U patterns (header_row ! i))"
      by auto
  next
    assume a: "0 \<le> j \<and> nat j < length header_row
      \<and> cell_matches U patterns (header_row ! nat j)
      \<and> (\<forall>i < nat j. \<not> cell_matches U patterns (header_row ! i))"
    then show "\<exists>i < length header_row. j = int i \<and> cell_matches U patterns (header_row ! i)
              \<and> (\<forall>i' < i. \<not> cell_matches U patterns (header_row ! i'))"
      by (intro exI[of _ "nat j"]) simp
  qed
  finally show ?thesis .
qed

lemma find_idx_no_match:
  "find_idx U (map (\<lambda>h. normalize_for_match U (Some h)) header_row) patterns = None
     \<longleftrightarrow> (\<forall>i < length header_row. \<not> cell_matches U patterns (header_row ! i))"
  by (auto simp: find_idx_def find_idx_from_None any_pattern_iff cell_matches_def)

text \<open>
  C7. For every header row and every logical field, the column map holds the index of
  the first cell, in header order, whose normalized form (trimmed, lowercased, NFKD
  decomposed, combining marks removed) matches one of the patterns of the field, and
  holds \<open>None\<close> exactly when no cell matches.
\<close>

theorem build_column_map_first_match:
  "\<forall>(field, patterns) \<in> set fields.
     (\<forall>j. field (build_column_map U header_row) = Some j
            \<longleftrightarrow> first_match U patterns header_row j)
     \<and> (field (build_column_map U header_row) = None
            \<longleftrightarrow> (\<forall>i < length header_row. \<not> cell_matches U patterns (header_row ! i)))"
  by (simp add: fields_def build_column_map_def Let_def find_idx_first_match find_idx_no_match)

theorem build_column_map_first_match_witness:
  "build_column_map latin_ucd example_header
     = \<lparr> company = Some 0, article = Some 1, quantity = Some 2, batch = Some 4,
         order_no = None, carton = Some 5 \<rparr>
   \<and> normalize_for_match latin_ucd (Some (example_header ! 2)) = ustr ''stuckzahl''
   \<and> first_match latin_ucd quantity_patterns example_header 2
   \<and> \<not> cell_matches latin_ucd order_patterns (example_header ! 4)
   \<and> quantity (build_column_map latin_ucd [ustr ''SKU'', ustr ''QTY'']) = Some 1
   \<and> quantity (build_column_map latin_ucd [ustr ''Quantity'']) = Some 0"
proof -
  have e: "build_column_map latin_ucd example_header
             = \<lparr> company = Some 0, article = Some 1, quantity = Some 2, batch = Some 4,
                 order_no = None, carton = Some 5 \<rparr>
           \<and> normalize_for_match latin_ucd (Some (example_header ! 2)) = ustr ''stuckzahl''
           \<and> quantity (build_column_map latin_ucd [ustr ''SKU'', ustr ''QTY'']) = Some 1
           \<and> quantity (build_column_map latin_ucd [ustr ''Quantity'']) = Some 0"
    by code_simp
  from build_column_map_first_match [of latin_ucd example_header]
  have "(\<forall>j. quantity (build_column_map latin_ucd example_header) = Some j
              \<longleftrightarrow> first_match latin_ucd quantity_patterns example_header j)
        \<and> (order_no (build_column_map latin_ucd example_header) = None
              \<longleftrightarrow> (\<forall>i < length example_header.
                     \<not> cell_matches latin_ucd order_patterns (example_header ! i)))"
    by (simp add: fields_def)
  moreover have "(4::nat) < length example_header"
    by (simp add: example_header_def)
  ultimately show ?thesis using e by auto
qed

section \<open>Properties of shrink-to-fit and of the barcode fitter\<close>

lemma header_shrink_result:
  "min_font \<le> font_size \<Longrightarrow>
   header_shrink w a min_font font_size
     = font_size - int (header_shrink_steps w a min_font font_size)
   \<and> int (header_shrink_steps w a min_font font_size) \<le> font_size - min_font
   \<and> (w (header_shrink w a min_font font_size) \<le> a
        \<or> header_shrink w a min_font font_size = min_font)"
proof (induction w a min_font font_size rule: header_shrink.induct)
  case (1 w a min_font font_size)
  show ?case
  proof (cases "font_size > min_font \<and> w font_size > a")
    case True
    then have "min_font \<le> font_size - 1" by simp
    with "1.IH" True
    have ih: "header_shrink w a min_font (font_size - 1)
                = font_size - 1 - int (header_shrink_steps w a min_font (font_size - 1))
              \<and> int (header_shrink_steps w a min_font (font_size - 1)) \<le> font_size - 1 - min_font
              \<and> (w (header_shrink w a min_font (font_size - 1)) \<le> a
                   \<or> header_shrink w a min_font (font_size - 1) = min_font)"
      by blast
    have s: "header_shrink w a min_font font_size = header_shrink w a min_font (font_size - 1)"
      using True by (subst header_shrink.simps) simp
    have n: "header_shrink_steps w a min_font font_size
               = Suc (header_shrink_steps w a min_font (font_size - 1))"
      using True by (subst header_shrink_steps.simps) simp
    from ih have "header_shrink w a min_font (font_size - 1)
                    = font_size - int (Suc (header_shrink_steps w a min_font (font_size - 1)))"
      and "int (Suc (header_shrink_steps w a min_font (font_size - 1))) \<le> font_size - min_font"
      and "w (header_shrink w a min_font (font_size - 1)) \<le> a
             \<or> header_shrink w a min_font (font_size - 1) = min_font"
      by linarith+
    then show ?thesis
      unfolding s n by blast
  next
    case False
    have s: "header_shrink w a min_font font_size = font_size"
      using False by (subst header_shrink.simps) auto
    have n: "header_shrink_steps w a min_font font_size = 0"
      using False by (subst header_shrink_steps.simps) auto
    show ?thesis
      using False "1.prems" unfolding s n by auto
  qed
qed

lemma value_shrink_result:
  "8 \<le> font_size_val \<Longrightarrow> text_w = w font_size_val \<Longrightarrow>
   value_shrink w a font_size_val text_w
     = font_size_val - int (value_shrink_steps w a font_size_val text_w)
   \<and> int (value_shrink_steps w a font_size_val text_w) \<le> font_size_val - 8
   \<and> (w (value_shrink w a font_size_val text_w) \<le> a
        \<or> value_shrink w a font_size_val text_w = 8)"
proof (induction w a font_size_val text_w rule: value_shrink.induct)
  case (1 w a font_size_val text_w)
  show ?case
  proof (cases "text_w > a \<and> font_size_val > 8")
    case True
    then have "8 \<le> font_size_val - 1" by simp
    with "1.IH" True
    have ih: "value_shrink w a (font_size_val - 1) (w (font_size_val - 1))
                = font_size_val - 1
                    - int (value_shrink_steps w a (font_size_val - 1) (w (font_size_val - 1)))
              \<and> int (value_shrink_steps w a (font_size_val - 1) (w (font_size_val - 1)))
                  \<le> font_size_val - 1 - 8
              \<and> (w (value_shrink w a (font_size_val - 1) (w (font_size_val - 1))) \<le> a
                   \<or> value_shrink w a (font_size_val - 1) (w (font_size_val - 1)) = 8)"
      by blast
    have s: "value_shrink w a font_size_val text_w
               = value_shrink w a (font_size_val - 1) (w (font_size_val - 1))"
      using True by (subst value_shrink.simps) simp
    have n: "value_shrink_steps w a font_size_val text_w
               = Suc (value_shrink_steps w a (font_size_val - 1) (w (font_size_val - 1)))"
      using True by (subst value_shrink_steps.simps) simp
    from ih have "value_shrink w a (font_size_val - 1) (w (font_size_val - 1))
                    = font_size_val
                        - int (Suc (value_shrink_steps w a (font_size_val - 1)
                                      (w (font_size_val - 1))))"
      and "int (Suc (value_shrink_steps w a (font_size_val - 1) (w (font_size_val - 1))))
             \<le> font_size_val - 8"
      and "w (value_shrink w a (font_size_val - 1) (w (font_size_val - 1))) \<le> a
             \<or> value_shrink w a (font_size_val - 1) (w (font_size_val - 1)) = 8"
      by linarith+
    then show ?thesis
      unfolding s n by blast
  next
    case False
    have s: "value_shrink w a font_size_val text_w = font_size_val"
      using False by (subst value_shrink.simps) auto
    have n: "value_shrink_steps w a font_size_val text_w = 0"
      using False by (subst value_shrink_steps.simps) auto
    show ?thesis
      using False "1.prems" unfolding s n by auto
  qed
qed

text \<open>
  C5. Both shrink loops terminate (they are total functions), for every text, font,
  available width and starting size not below the floor: the final size is the starting
  size minus the number of executions of the loop body, each of which takes one unit;
  that number is at most the starting size minus the floor; and at the end the text
  measured at the final size fits the available width or the final size is the floor.
  So the header is drawn at a size from 12 to 42 and a shrinkable value from 8 to 36; a
  text that is still too wide at the floor is drawn at the floor, and nothing is raised.
\<close>

theorem shrink_to_fit:
  "(min_font \<le> start \<longrightarrow>
      header_shrink w a min_font start = start - int (header_shrink_steps w a min_font start)
      \<and> int (header_shrink_steps w a min_font start) \<le> start - min_font
      \<and> (w (header_shrink w a min_font start) \<le> a
           \<or> header_shrink w a min_font start = min_font))
   \<and> (8 \<le> start \<longrightarrow>
      value_shrink w a start (w start) = start - int (value_shrink_steps w a start (w start))
      \<and> int (value_shrink_steps w a start (w start)) \<le> start - 8
      \<and> (w (value_shrink w a start (w start)) \<le> a
           \<or> value_shrink w a start (w start) = 8))
   \<and> header_font_size B txt a
        = header_shrink (\<lambda>sz. stringWidth B txt (FONT_BOLD B) sz) a 12 42
   \<and> 12 \<le> header_font_size B txt a \<and> header_font_size B txt a \<le> 42
   \<and> (stringWidth B txt (FONT_BOLD B) (header_font_size B txt a) \<le> a
        \<or> header_font_size B txt a = 12)
   \<and> value_font_size B txt True c
        = value_shrink (\<lambda>sz. stringWidth B txt (FONT_BOLD B) sz) (c - 20) 36
            (stringWidth B txt (FONT_BOLD B) 36)
   \<and> 8 \<le> value_font_size B txt True c \<and> value_font_size B txt True c \<le> 36
   \<and> (stringWidth B txt (FONT_BOLD B) (value_font_size B txt True c) \<le> c - 20
        \<or> value_font_size B txt True c = 8)"
proof -
  let ?w = "\<lambda>sz. stringWidth B txt (FONT_BOLD B) sz"
  have h: "header_font_size B txt a = header_shrink ?w a 12 42"
    by (simp add: header_font_size_def)
  have v: "value_font_size B txt True c = value_shrink ?w (c - 20) 36 (?w 36)"
    by (simp add: value_font_size_def)
  have hr: "header_shrink ?w a 12 42 = 42 - int (header_shrink_steps ?w a 12 42)
            \<and> int (header_shrink_steps ?w a 12 42) \<le> 42 - 12
            \<and> (?w (header_shrink ?w a 12 42) \<le> a \<or> header_shrink ?w a 12 42 = 12)"
    by (rule header_shrink_result) simp
  have vr: "value_shrink ?w (c - 20) 36 (?w 36)
              = 36 - int (value_shrink_steps ?w (c - 20) 36 (?w 36))
            \<and> int (value_shrink_steps ?w (c - 20) 36 (?w 36)) \<le> 36 - 8
            \<and> (?w (value_shrink ?w (c - 20) 36 (?w 36)) \<le> c - 20
                 \<or> value_shrink ?w (c - 20) 36 (?w 36) = 8)"
    by (rule value_shrink_result) simp_all
  have 1: "min_font \<le> start \<longrightarrow>
      header_shrink w a min_font start = start - int (header_shrink_steps w a min_font start)
      \<and> int (header_shrink_steps w a min_font start) \<le> start - min_font
      \<and> (w (header_shrink w a min_font start) \<le> a
           \<or> header_shrink w a min_font start = min_font)"
    using header_shrink_result by blast
  have 2: "8 \<le> start \<longrightarrow>
      value_shrink w a start (w start) = start - int (value_shrink_steps w a start (w start))
      \<and> int (value_shrink_steps w a start (w start)) \<le> start - 8
      \<and> (w (value_shrink w a start (w start)) \<le> a
           \<or> value_shrink w a start (w start) = 8)"
    using value_shrink_result by blast
  have 3: "12 \<le> header_font_size B txt a \<and> header_font_size B txt a \<le> 42"
    using hr unfolding h by linarith
  have 4: "8 \<le> value_font_size B txt True c \<and> value_font_size B txt True c \<le> 36"
    using vr unfolding v by linarith
  have 5: "stringWidth B txt (FONT_BOLD B) (header_font_size B txt a) \<le> a
        \<or> header_font_size B txt a = 12"
    using hr unfolding h by blast
  have 6: "stringWidth B txt (FONT_BOLD B) (value_font_size B txt True c) \<le> c - 20
        \<or> value_font_size B txt True c = 8"
    using vr unfolding v by blast
  from 1 2 h 3 5 v 4 6 show ?thesis by blast
qed

theorem shrink_to_fit_witness:
  "(12::int) \<le> 42 \<and> (8::int) \<le> 36
   \<and> header_shrink (\<lambda>sz. real_of_int sz * 10) 200 12 42 = 20
   \<and> header_shrink_steps (\<lambda>sz. real_of_int sz * 10) 200 12 42 = 22
   \<and> real_of_int (header_shrink (\<lambda>sz. real_of_int sz * 10) 200 12 42) * 10 \<le> 200
   \<and> value_shrink (\<lambda>sz. real_of_int sz * 100) 200 36 (real_of_int 36 * 100) = 8
   \<and> value_shrink_steps (\<lambda>sz. real_of_int sz * 100) 200 36 (real_of_int 36 * 100) = 28
   \<and> \<not> real_of_int (value_shrink (\<lambda>sz. real_of_int sz * 100) 200 36 (real_of_int 36 * 100)) * 100
         \<le> 200"
proof -
  have e: "header_shrink_steps (\<lambda>sz. real_of_int sz * 10) 200 12 42 = 22
           \<and> value_shrink_steps (\<lambda>sz. real_of_int sz * 100) 200 36 (real_of_int 36 * 100) = 28"
    by (simp add: header_shrink_steps.simps value_shrink_steps.simps)
  from shrink_to_fit [of 12 42 "\<lambda>sz. real_of_int sz * 10" 200 sample_backend "[]" 0]
    shrink_to_fit [of 12 36 "\<lambda>sz. real_of_int sz * 100" 200 sample_backend "[]" 0] e
  show ?thesis by simp
qed

lemma clamp_width_scale:
  assumes "0 < tw"
  shows "clamp_width tw (cw, ch)
           = Inr (cw * (if cw > tw then tw / cw else 1), ch * (if cw > tw then tw / cw else 1))"
  using assms by (simp add: clamp_width_def Let_def)

lemma clamp_height_scale:
  assumes "0 < th"
  shows "clamp_height th (w1, h1)
           = Inr (w1 * (if h1 > th then th / h1 else 1), h1 * (if h1 > th then th / h1 else 1))"
  using assms by (simp add: clamp_height_def Let_def)

lemma barcode_fit_scales:
  assumes "0 < tw" and "0 < th" and "w0 \<noteq> 0"
    and "candidate w0 h0 tw = (cw, ch)"
    and "s1 = (if cw > tw then tw / cw else 1)"
    and "s2 = (if ch * s1 > th then th / (ch * s1) else 1)"
  shows "barcode_fit ibw w0 h0 tw th
           = Inr \<lparr> final_width = cw * s1 * s2, final_height = ch * s1 * s2,
                   bar_width_final = (if ibw * (cw * s1 * s2 / w0) < 0.2 then 0.2
                                      else ibw * (cw * s1 * s2 / w0)) \<rparr>"
  using assms(3,4)
  unfolding barcode_fit_def assms(5,6)
  by (simp add: clamp_width_scale[OF assms(1)] clamp_height_scale[OF assms(2)]
      module_width_def Let_def)

lemma width_clamped:
  assumes "0 < (tw::real)" and "s1 = (if cw > tw then tw / cw else 1)"
  shows "cw * s1 \<le> tw" and "0 < s1" and "s1 \<le> 1"
  using assms by (auto simp: field_simps)

lemma height_clamped:
  assumes "0 < (th::real)" and "s2 = (if h1 > th then th / h1 else 1)"
  shows "h1 * s2 \<le> th" and "0 < s2" and "s2 \<le> 1"
  using assms by (auto simp: field_simps)

lemma scaled_le:
  assumes "(w::real) \<le> tw" and "0 < tw" and "0 < s" and "s \<le> 1"
  shows "w * s \<le> tw"
proof (cases "0 \<le> w")
  case True
  then have "w * s \<le> w * 1"
    using assms(4) by (intro mult_left_mono) simp_all
  with assms(1) show ?thesis by simp
next
  case False
  then have "w * s < 0"
    using assms(3) by (simp add: mult_neg_pos)
  with assms(2) show ?thesis by simp
qed

text \<open>
  C2. For every baseline size and every target box with positive sides, the width clamp
  comes first and the height clamp second, each multiplying the width and the height by
  the same factor (1 when it does not apply); the resulting \<open>final_width\<close> and
  \<open>final_height\<close> lie within the target box, in both dimensions. The module width is
  the one that gives \<open>final_width\<close> under linear scaling, unless that is below 0.2: then
  it is 0.2, which stands for a wider barcode (one that can exceed the box).
\<close>

theorem barcode_fit_clamps:
  assumes "0 < tw" and "0 < th" and "w0 \<noteq> 0" and "0 < ibw"
  shows "\<exists>ft cw ch s1 s2.
           barcode_fit ibw w0 h0 tw th = Inr ft
           \<and> candidate w0 h0 tw = (cw, ch)
           \<and> s1 = (if cw > tw then tw / cw else 1)
           \<and> s2 = (if ch * s1 > th then th / (ch * s1) else 1)
           \<and> final_width ft = cw * s1 * s2
           \<and> final_height ft = ch * s1 * s2
           \<and> final_width ft \<le> tw
           \<and> final_height ft \<le> th
           \<and> bar_width_final ft
               = (if ibw * (final_width ft / w0) < 0.2 then 0.2
                  else ibw * (final_width ft / w0))
           \<and> (\<not> ibw * (final_width ft / w0) < 0.2 \<longrightarrow>
                 w0 * (bar_width_final ft / ibw) = final_width ft)"
proof -
  obtain cw ch where c: "candidate w0 h0 tw = (cw, ch)"
    by (cases "candidate w0 h0 tw")
  define s1 where "s1 = (if cw > tw then tw / cw else 1)"
  define s2 where "s2 = (if ch * s1 > th then th / (ch * s1) else 1)"
  define ft where "ft = \<lparr> final_width = cw * s1 * s2, final_height = ch * s1 * s2,
                   bar_width_final = (if ibw * (cw * s1 * s2 / w0) < 0.2 then 0.2
                                      else ibw * (cw * s1 * s2 / w0)) \<rparr>"
  have f: "barcode_fit ibw w0 h0 tw th = Inr ft"
    unfolding ft_def by (rule barcode_fit_scales[OF assms(1,2,3) c s1_def s2_def])
  have w1: "cw * s1 \<le> tw"
    by (rule width_clamped(1)[OF assms(1) s1_def])
  have h2: "ch * s1 * s2 \<le> th" and p2: "0 < s2" and l2: "s2 \<le> 1"
    using height_clamped[OF assms(2) s2_def] by simp_all
  have w2: "cw * s1 * s2 \<le> tw"
    by (rule scaled_le[OF w1 assms(1) p2 l2])
  have m: "\<not> ibw * (final_width ft / w0) < 0.2 \<longrightarrow>
             w0 * (bar_width_final ft / ibw) = final_width ft"
    using assms(3,4) by (simp add: ft_def)
  have "final_width ft = cw * s1 * s2" and "final_height ft = ch * s1 * s2"
    and "bar_width_final ft = (if ibw * (final_width ft / w0) < 0.2 then 0.2
                  else ibw * (final_width ft / w0))"
    by (simp_all add: ft_def)
  with f c s1_def s2_def w2 h2 m show ?thesis
    by (intro exI[of _ ft] exI[of _ cw] exI[of _ ch] exI[of _ s1] exI[of _ s2]) simp
qed

theorem barcode_fit_clamps_witness:
  "0 < size_width_target \<and> 0 < size_height_target \<and> (1314 / 5 :: real) \<noteq> 0
   \<and> 0 < initial_bar_width
   \<and> barcode_fit initial_bar_width (1314 / 5) 40 size_width_target size_height_target
       = Inr \<lparr> final_width = 250, final_height = 100, bar_width_final = 250 / 219 \<rparr>
   \<and> 250 \<le> size_width_target \<and> 100 \<le> size_height_target
   \<and> barcode_fit initial_bar_width 3000 40 size_width_target size_height_target
       = Inr \<lparr> final_width = 250, final_height = 100, bar_width_final = 0.2 \<rparr>
   \<and> initial_bar_width * (250 / 3000) < 0.2
   \<and> size_width_target < 3000 * (0.2 / initial_bar_width)"
proof -
  have p: "0 < size_width_target \<and> 0 < size_height_target \<and> (1314 / 5 :: real) \<noteq> 0
           \<and> 0 < initial_bar_width"
    by (simp add: size_width_target_value size_height_target_value initial_bar_width_def Let_def)
  have e: "barcode_fit initial_bar_width (1314 / 5) 40 size_width_target size_height_target
             = Inr \<lparr> final_width = 250, final_height = 100, bar_width_final = 250 / 219 \<rparr>
           \<and> barcode_fit initial_bar_width 3000 40 size_width_target size_height_target
               = Inr \<lparr> final_width = 250, final_height = 100, bar_width_final = 0.2 \<rparr>
           \<and> initial_bar_width * (250 / 3000) < 0.2
           \<and> size_width_target < 3000 * (0.2 / initial_bar_width)"
    by (simp add: barcode_fit_def candidate_def clamp_width_def clamp_height_def
        module_width_def size_width_target_value size_height_target_value
        initial_bar_width_def Let_def)
  from p have "0 < size_width_target" and "0 < size_height_target"
    and "(1314 / 5 :: real) \<noteq> 0" and "0 < initial_bar_width"
    by simp_all
  from barcode_fit_clamps [OF this, of 40] p e
  show ?thesis by auto
qed

text \<open>
  C1, as the code has it. For a baseline render 262.8 wide and 40 high (the program's
  target box; the floor on the module width does not apply) the fitted barcode is 250
  by 100: a ratio of 2.5, against 6.57 for the baseline. The candidate height is not
  the baseline height scaled by the factor that takes the baseline width to the
  candidate width.
\<close>

theorem barcode_fit_ratio_counterexample:
  "barcode_fit initial_bar_width (1314 / 5) 40 size_width_target size_height_target
     = Inr \<lparr> final_width = 250, final_height = 100, bar_width_final = 250 / 219 \<rparr>
   \<and> \<not> initial_bar_width * (250 / (1314 / 5)) < (0.2::real)
   \<and> (250::real) / 100 = 5 / 2 \<and> ((1314 / 5) :: real) / 40 = 657 / 100
   \<and> snd (candidate (1314 / 5) 40 size_width_target)
       \<noteq> 40 * (fst (candidate (1314 / 5) 40 size_width_target) / (1314 / 5))"
  by (simp add: barcode_fit_def candidate_def clamp_width_def clamp_height_def module_width_def
      size_width_target_value size_height_target_value initial_bar_width_def Let_def)

text \<open>
  C1, amended. The candidate height is the baseline height times one hundredth of the
  candidate width, and both clamps scale width and height alike. So for every baseline
  render and target box with positive sides the fitted width/height ratio is 100
  divided by the baseline height, whatever the baseline width; it is the ratio of the
  baseline render exactly when the baseline width is 100.
\<close>

theorem barcode_fit_ratio:
  assumes "0 < tw" and "0 < th" and "0 < w0" and "0 < h0"
  shows "\<exists>ft. barcode_fit ibw w0 h0 tw th = Inr ft
           \<and> 0 < final_width ft \<and> 0 < final_height ft
           \<and> snd (candidate w0 h0 tw) = h0 * (fst (candidate w0 h0 tw) / 100)
           \<and> final_width ft / final_height ft = 100 / h0
           \<and> (final_width ft / final_height ft = w0 / h0 \<longleftrightarrow> w0 = 100)"
proof -
  define cw where "cw = (w0 / 100) * tw"
  define ch where "ch = (h0 / 100) * cw"
  have c: "candidate w0 h0 tw = (cw, ch)"
    by (simp add: candidate_def cw_def ch_def Let_def)
  have cwp: "0 < cw" using assms by (simp add: cw_def)
  have chp: "0 < ch" using assms cwp by (simp add: ch_def)
  define s1 where "s1 = (if cw > tw then tw / cw else 1)"
  define s2 where "s2 = (if ch * s1 > th then th / (ch * s1) else 1)"
  define ft where "ft = \<lparr> final_width = cw * s1 * s2, final_height = ch * s1 * s2,
                   bar_width_final = (if ibw * (cw * s1 * s2 / w0) < 0.2 then 0.2
                                      else ibw * (cw * s1 * s2 / w0)) \<rparr>"
  have w0n: "w0 \<noteq> 0" using assms(3) by simp
  have f: "barcode_fit ibw w0 h0 tw th = Inr ft"
    unfolding ft_def by (rule barcode_fit_scales[OF assms(1,2) w0n c s1_def s2_def])
  have p1: "0 < s1"
    by (rule width_clamped(2)[OF assms(1) s1_def])
  have p2: "0 < s2"
    by (rule height_clamped(2)[OF assms(2) s2_def])
  have fw: "0 < final_width ft" and fh: "0 < final_height ft"
    using cwp chp p1 p2 by (simp_all add: ft_def)
  have "final_width ft / final_height ft = cw / ch"
    using p1 p2 by (simp add: ft_def)
  also have "\<dots> = 100 / h0"
    using cwp assms(4) by (simp add: ch_def)
  finally have r: "final_width ft / final_height ft = 100 / h0" .
  have e: "final_width ft / final_height ft = w0 / h0 \<longleftrightarrow> w0 = 100"
    unfolding r using assms(4) by (auto simp: field_simps)
  have s: "snd (candidate w0 h0 tw) = h0 * (fst (candidate w0 h0 tw) / 100)"
    by (simp add: c ch_def)
  from f fw fh s r e show ?thesis by blast
qed

theorem barcode_fit_ratio_witness:
  "0 < size_width_target \<and> 0 < size_height_target \<and> (0::real) < 100 \<and> (0::real) < 40
   \<and> (\<exists>ft. barcode_fit initial_bar_width 100 40 size_width_target size_height_target = Inr ft
          \<and> 0 < final_width ft \<and> 0 < final_height ft
          \<and> final_width ft / final_height ft = 100 / 40)"
proof -
  have p: "0 < size_width_target" "0 < size_height_target" "(0::real) < 100" "(0::real) < 40"
    by (simp_all add: size_width_target_value size_height_target_value)
  from barcode_fit_ratio [OF p, of initial_bar_width] p
  show ?thesis by blast
qed

end
